theory Spec2Isabelle
  imports
    Main
    "HOL-Library.Char_ord"
    "HOL-Library.List_Lexorder"
    "HOL-Library.Multiset"
    "HOL-Library.Sublist"
    "HOL-Library.AList"
begin

section \<open>Python string primitives used by \<^verbatim>\<open>scripts/generate_targets.py\<close>\<close>

text \<open>
  Strings are \<^typ>\<open>string\<close>, one \<^typ>\<open>char\<close> per code point (the inventory and the side
  tables are ASCII). Comparison of strings is the lexicographic order on code points
  (\<open>HOL-Library.List_Lexorder\<close> over \<open>HOL-Library.Char_ord\<close>), which is what Python's
  \<^verbatim>\<open>sorted(..., key=lambda x: x['board'])\<close> uses.
\<close>

text \<open>\<^verbatim>\<open>needle in hay\<close> for two strings: \<open>needle\<close> occurs as a contiguous substring.\<close>

fun contains_str :: "string \<Rightarrow> string \<Rightarrow> bool" where
  "contains_str needle [] = (needle = [])"
| "contains_str needle (c # cs) = (prefix needle (c # cs) \<or> contains_str needle cs)"

text \<open>The characters \<^verbatim>\<open>str.strip()\<close> removes (\<^verbatim>\<open>str.isspace\<close> below code point 256).\<close>

definition is_space :: "char \<Rightarrow> bool" where
  "is_space c = (of_char c \<in> set [9, 10, 11, 12, 13, 28, 29, 30, 31, 32, 133, 160 :: nat])"

definition strip_chars :: "(char \<Rightarrow> bool) \<Rightarrow> string \<Rightarrow> string" where
  "strip_chars P s = rev (dropWhile P (rev (dropWhile P s)))"

definition rstrip_chars :: "(char \<Rightarrow> bool) \<Rightarrow> string \<Rightarrow> string" where
  "rstrip_chars P s = rev (dropWhile P (rev s))"

text \<open>\<^verbatim>\<open>s.strip()\<close>\<close>

definition strip :: "string \<Rightarrow> string" where
  "strip s = strip_chars is_space s"

text \<open>
  \<^verbatim>\<open>s.split(sep)\<close> for a non-empty separator: left to right, non-overlapping, always at
  least one field. Every call in the source passes a non-empty literal; Python's
  \<^verbatim>\<open>ValueError\<close> for an empty separator is therefore unreachable, and the model returns
  the unsplit string there.
\<close>

function split_str :: "string \<Rightarrow> string \<Rightarrow> string list" where
  "split_str sep s =
     (if sep = [] then [s]
      else case s of
        [] \<Rightarrow> [[]]
      | c # cs \<Rightarrow>
          if prefix sep s then [] # split_str sep (drop (length sep) s)
          else (let r = split_str sep cs in (c # hd r) # tl r))"
  by pat_completeness auto
termination
  by (relation "measure (\<lambda>(sep, s). length s)") (auto simp: prefix_def)

declare split_str.simps [simp del]

text \<open>\<^verbatim>\<open>sep.join(xs)\<close>\<close>

fun join_str :: "string \<Rightarrow> string list \<Rightarrow> string" where
  "join_str sep [] = []"
| "join_str sep [x] = x"
| "join_str sep (x # y # ys) = x @ sep @ join_str sep (y # ys)"

text \<open>\<^verbatim>\<open>d.get(key, default)\<close> on a key that may be absent.\<close>

definition get_or :: "'a \<Rightarrow> 'a option \<Rightarrow> 'a" where
  "get_or d v = (case v of None \<Rightarrow> d | Some x \<Rightarrow> x)"


section \<open>Inventory records\<close>

text \<open>
  One element of \<^verbatim>\<open>image-info.json\<close>. The script reads these keys and no others; a key
  that is absent from the JSON object (or whose enclosing object is absent) is \<open>None\<close>:
  \<^item> \<^verbatim>\<open>entry['in']['inventory']\<close>: \<^verbatim>\<open>BOARD\<close>, \<^verbatim>\<open>BOARDFAMILY\<close>, \<^verbatim>\<open>BOOT_SOC\<close>,
    \<^verbatim>\<open>BOARD_HAS_VIDEO\<close>, \<^verbatim>\<open>BOARD_SUPPORT_LEVEL\<close>;
  \<^item> \<^verbatim>\<open>entry['in']['inventory']['BOARD_TOP_LEVEL_VARS']\<close> (a JSON object):
    \<^verbatim>\<open>BOARDFAMILY\<close>, \<^verbatim>\<open>BOOT_SOC\<close>, \<^verbatim>\<open>KERNEL_TEST_TARGET\<close>;
  \<^item> \<^verbatim>\<open>entry['in']['vars']\<close>: \<^verbatim>\<open>BRANCH\<close>, \<^verbatim>\<open>BUILD_DESKTOP\<close>;
  \<^item> \<^verbatim>\<open>entry['out']\<close>: \<^verbatim>\<open>ARCH\<close>, \<^verbatim>\<open>BOOT_SOC\<close>.
\<close>

record entry =
  inv_BOARD :: "string option"
  inv_BOARDFAMILY :: "string option"
  inv_BOOT_SOC :: "string option"
  inv_BOARD_HAS_VIDEO :: "bool option"
  inv_BOARD_SUPPORT_LEVEL :: "string option"
  tlv_BOARDFAMILY :: "string option"
  tlv_BOOT_SOC :: "string option"
  tlv_KERNEL_TEST_TARGET :: "string option"
  vars_BRANCH :: "string option"
  vars_BUILD_DESKTOP :: "string option"
  out_ARCH :: "string option"
  out_BOOT_SOC :: "string option"

text \<open>
  The value \<^verbatim>\<open>is_fast_hardware\<close> returns: \<^verbatim>\<open>True\<close> (\<open>Fast\<close>), \<^verbatim>\<open>False\<close> (\<open>Slow\<close>),
  \<^verbatim>\<open>'riscv64'\<close>, \<^verbatim>\<open>'loongarch'\<close>, or \<^verbatim>\<open>None\<close> (\<open>Headless\<close>).
\<close>

datatype perf = Fast | Slow | Riscv64 | Loongarch | Headless


section \<open>Board classifier\<close>

definition is_fast_hardware :: "entry \<Rightarrow> perf" where
  "is_fast_hardware e =
     (let board = get_or '''' (inv_BOARD e);
          board_family = get_or '''' (inv_BOARDFAMILY e);
          boot_soc = get_or '''' (inv_BOOT_SOC e);
          has_video = get_or False (inv_BOARD_HAS_VIDEO e);
          board_family = (if board_family = '''' then get_or '''' (tlv_BOARDFAMILY e) else board_family);
          boot_soc = (if boot_soc = '''' then get_or '''' (tlv_BOOT_SOC e) else boot_soc);
          boot_soc = (if boot_soc = '''' then get_or '''' (out_BOOT_SOC e) else boot_soc)
      in if \<not> has_video then Headless
         else let arch = get_or '''' (out_ARCH e)
           in if board = ''uefi-loong64'' then Loongarch
              else if arch \<in> set [''arm'', ''armhf''] then Slow
              else if board_family \<noteq> '''' \<and>
                      (prefix ''sun50iw'' board_family \<or> prefix ''sun55iw'' board_family) then Slow
              else if board_family \<in>
                      set [''meson-gxbb'', ''meson-gxl'', ''meson-g12a'', ''meson-g12b'', ''meson-sm1'']
                   then Slow
              else if board_family = ''nuvoton-ma35d1'' then Slow
              else if boot_soc \<in> set [''rk3328'', ''rk3399'', ''rk3399pro''] then Slow
              else if arch = ''riscv64'' then Riscv64
              else if arch = ''loongarch64'' then Loongarch
              else Fast)"

text \<open>
  The two side tables are Python dicts keyed by \<^verbatim>\<open>(board, branch)\<close>; the wildcard branch is
  the empty string. They are association lists here, read with \<^const>\<open>map_of\<close> and written
  with \<^const>\<open>AList.update\<close>. The values of the removal table are Python sets of names.
\<close>

type_synonym extensions_map = "((string \<times> string) \<times> string) list"
type_synonym remove_map = "((string \<times> string) \<times> string set) list"

text \<open>
  The two-level lookup of \<^verbatim>\<open>get_soc_extensions\<close>: the exact key if it is present, else the
  wildcard key; \<open>None\<close> is Python's \<^verbatim>\<open>None\<close>. An empty (or absent) table is not consulted.
\<close>

definition lookup2 :: "((string \<times> string) \<times> 'v) list \<Rightarrow> string \<Rightarrow> string \<Rightarrow> 'v option" where
  "lookup2 m board branch =
     (if m = [] then None
      else if (board, branch) \<in> fst ` set m then map_of m (board, branch)
      else if (board, '''') \<in> fst ` set m then map_of m (board, '''')
      else None)"

text \<open>
  The loop \<^verbatim>\<open>for ext in manual_ext.split(','): ...\<close>: append each stripped, non-empty name
  that is not yet in the list.
\<close>

definition add_manual :: "string \<Rightarrow> string list \<Rightarrow> string list" where
  "add_manual manual_ext extensions =
     fold (\<lambda>ext acc. let ext = strip ext
                      in if ext \<noteq> '''' \<and> ext \<notin> set acc then acc @ [ext] else acc)
          (split_str '','' manual_ext) extensions"

text \<open>The list \<^verbatim>\<open>extensions\<close> of \<^verbatim>\<open>get_soc_extensions\<close> just before it is joined.\<close>

definition soc_extension_list :: "entry \<Rightarrow> extensions_map \<Rightarrow> remove_map \<Rightarrow> string list" where
  "soc_extension_list e extensions_map remove_extensions_map =
     (let board = get_or '''' (inv_BOARD e);
          branch = get_or '''' (vars_BRANCH e);
          extensions = (if is_fast_hardware e = Fast then [''v4l2loopback-dkms'', ''mesa-vpu''] else []);
          extensions =
            (case lookup2 extensions_map board branch of
               None \<Rightarrow> extensions
             | Some manual_ext \<Rightarrow>
                 if manual_ext \<noteq> '''' then add_manual manual_ext extensions else extensions);
          extensions =
            (case lookup2 remove_extensions_map board branch of
               None \<Rightarrow> extensions
             | Some remove_ext \<Rightarrow>
                 if remove_ext \<noteq> {} then filter (\<lambda>ext. ext \<notin> remove_ext) extensions
                 else extensions)
      in extensions)"

definition get_soc_extensions :: "entry \<Rightarrow> extensions_map \<Rightarrow> remove_map \<Rightarrow> string" where
  "get_soc_extensions e extensions_map remove_extensions_map =
     (let extensions = soc_extension_list e extensions_map remove_extensions_map
      in if extensions \<noteq> [] then join_str '','' extensions else '''')"


section \<open>Loading the side tables\<close>

text \<open>
  The body of the loop of \<^verbatim>\<open>load_extensions_map\<close> and \<^verbatim>\<open>load_remove_extensions_map\<close> on
  one line of the file, up to the point where the table is written; \<open>key\<close> is
  \<^verbatim>\<open>ENABLE_EXTENSIONS\<close> or \<^verbatim>\<open>REMOVE_EXTENSIONS\<close>. The result is
  \<^item> \<open>Inr None\<close> when the line is passed over by one of the \<^verbatim>\<open>continue\<close> statements,
  \<^item> \<open>Inr (Some (board, branches, extensions))\<close> when it is parsed,
  \<^item> \<open>Inl e\<close> when the \<^verbatim>\<open>try\<close> block raises \<open>e\<close>. The block calls \<^verbatim>\<open>str.split\<close> with a
    non-empty separator, \<^verbatim>\<open>str.rstrip\<close>, \<^verbatim>\<open>str.strip\<close>, indexes \<^verbatim>\<open>parts\<close> after the test of
    its length and \<^verbatim>\<open>board_branches\<close> at 0 (a split has at least one field), and stores
    under a tuple of strings: none of these raises, so no branch below returns \<open>Inl\<close>.
\<close>

definition parse_map_line :: "string \<Rightarrow> string \<Rightarrow> string + (string \<times> string list \<times> string) option" where
  "parse_map_line key raw_line =
     (let line = strip raw_line
      in if line = '''' \<or> prefix ''#'' line then Inr None
         else if \<not> contains_str (''::'' @ key @ ''='') line then Inr None
         else let parts = split_str (key @ ''='') line
           in if length parts \<noteq> 2 then Inr None
              else let board_part = rstrip_chars (\<lambda>c. c = CHR '':'') (parts ! 0);
                       extensions = strip_chars (\<lambda>c. c = CHR 0x22) (parts ! 1)
                in if CHR '':'' \<in> set board_part
                   then let board_branches = split_str '':'' board_part
                     in Inr (Some (hd board_branches,
                                   filter (\<lambda>b. b \<noteq> '''') (tl board_branches), extensions))
                   else Inr (Some (board_part, [], extensions)))"

text \<open>
  The stores of one parsed line: one entry per listed branch, or the wildcard entry.
\<close>

definition store_line :: "string \<Rightarrow> string list \<Rightarrow> 'v \<Rightarrow> ((string \<times> string) \<times> 'v) list \<Rightarrow> ((string \<times> string) \<times> 'v) list" where
  "store_line board branches v m =
     (if branches \<noteq> [] then fold (\<lambda>branch m. AList.update (board, branch) v m) branches m
      else AList.update (board, '''') v m)"

text \<open>
  A loader returns its table together with the warnings it printed to \<^verbatim>\<open>stderr\<close>. The
  file is the list of its lines, or \<open>None\<close> when it does not exist.
\<close>

definition parse_warning :: "string \<Rightarrow> string \<Rightarrow> string" where
  "parse_warning line e = ''Warning: Failed to parse line: '' @ line @ '' ('' @ e @ '')''"

definition load_extensions_step :: "string \<Rightarrow> extensions_map \<times> string list \<Rightarrow> extensions_map \<times> string list" where
  "load_extensions_step raw_line st =
     (case parse_map_line ''ENABLE_EXTENSIONS'' raw_line of
        Inl e \<Rightarrow> (fst st, snd st @ [parse_warning (strip raw_line) e])
      | Inr None \<Rightarrow> st
      | Inr (Some (board, branches, extensions)) \<Rightarrow>
          (store_line board branches extensions (fst st), snd st))"

definition load_extensions_map :: "string list option \<Rightarrow> extensions_map \<times> string list" where
  "load_extensions_map file =
     (case file of
        None \<Rightarrow> ([], [])
      | Some lines \<Rightarrow> fold load_extensions_step lines ([], []))"

definition load_remove_step :: "string \<Rightarrow> remove_map \<times> string list \<Rightarrow> remove_map \<times> string list" where
  "load_remove_step raw_line st =
     (case parse_map_line ''REMOVE_EXTENSIONS'' raw_line of
        Inl e \<Rightarrow> (fst st, snd st @ [parse_warning (strip raw_line) e])
      | Inr None \<Rightarrow> st
      | Inr (Some (board, branches, extensions)) \<Rightarrow>
          (let ext_set = set (filter (\<lambda>ext. ext \<noteq> '''') (map strip (split_str '','' extensions)))
           in (store_line board branches ext_set (fst st), snd st)))"

definition load_remove_extensions_map :: "string list option \<Rightarrow> remove_map \<times> string list" where
  "load_remove_extensions_map file =
     (case file of
        None \<Rightarrow> ([], [])
      | Some lines \<Rightarrow> fold load_remove_step lines ([], []))"


text \<open>
  The lines that are neither blank, nor a comment, nor parsed: a line without
  \<^verbatim>\<open>::KEY=\<close>, or one that \<^verbatim>\<open>KEY=\<close> does not split in exactly two parts.
\<close>

definition malformed :: "string \<Rightarrow> string \<Rightarrow> bool" where
  "malformed key raw_line =
     (let line = strip raw_line
      in line \<noteq> '''' \<and> \<not> prefix ''#'' line \<and>
         (\<not> contains_str (''::'' @ key @ ''='') line \<or>
          length (split_str (key @ ''='') line) \<noteq> 2))"


section \<open>Support-tier partitioner\<close>

text \<open>
  The dict \<^verbatim>\<open>extract_boards_by_support_level\<close> builds per \<^verbatim>\<open>(board, branch)\<close>; \<^verbatim>\<open>is_fast\<close>
  holds the result of \<^const>\<open>is_fast_hardware\<close>, \<^verbatim>\<open>entry\<close> the first record of the pair.
\<close>

record board_data =
  board :: string
  branch :: string
  support_level :: string
  arch :: string
  entry :: entry
  has_desktop_variant :: bool
  extensions :: string
  is_fast :: perf

text \<open>
  \<^verbatim>\<open>[b.strip() for b in kernel_test_target.split(',') if b.strip()]\<close>
\<close>

definition allowed_branches :: "string \<Rightarrow> string list" where
  "allowed_branches kernel_test_target =
     filter (\<lambda>b. b \<noteq> '''') (map strip (split_str '','' kernel_test_target))"

text \<open>
  The first loop: \<^verbatim>\<open>board_data\<close> is an insertion-ordered dict, an association list here.
  A record without board or branch, on the blacklist, or of another support level is
  passed over. A new key is appended; a key already present only has its
  \<^verbatim>\<open>has_desktop_variant\<close> raised.
\<close>

definition collect_step ::
  "extensions_map \<Rightarrow> remove_map \<Rightarrow> string set \<Rightarrow> entry \<Rightarrow>
   ((string \<times> string) \<times> board_data) list \<Rightarrow> ((string \<times> string) \<times> board_data) list" where
  "collect_step extensions_map remove_extensions_map blacklist e board_data =
     (let board = get_or '''' (inv_BOARD e);
          branch = get_or '''' (vars_BRANCH e);
          support_level = get_or '''' (inv_BOARD_SUPPORT_LEVEL e);
          arch = get_or '''' (out_ARCH e);
          build_desktop = get_or ''no'' (vars_BUILD_DESKTOP e)
      in if board = '''' \<or> branch = '''' then board_data
         else if board \<in> blacklist then board_data
         else if support_level \<notin> set [''conf'', ''csc'', ''tvb'', ''wip''] then board_data
         else let key = (board, branch)
           in if key \<notin> fst ` set board_data
              then board_data @
                   [(key, \<lparr>board = board, branch = branch, support_level = support_level,
                           arch = arch, entry = e,
                           has_desktop_variant = (build_desktop = ''yes''),
                           extensions = get_soc_extensions e extensions_map remove_extensions_map,
                           is_fast = is_fast_hardware e\<rparr>)]
              else if build_desktop = ''yes''
              then AList.map_entry key (\<lambda>d. d\<lparr>has_desktop_variant := True\<rparr>) board_data
              else board_data)"

text \<open>
  The second loop, over \<^verbatim>\<open>board_data.items()\<close> in insertion order: the branch filter, then
  the routing by support level.
\<close>

definition branch_allowed :: "('a board_data_scheme) \<Rightarrow> bool" where
  "branch_allowed d =
     (let kernel_test_target = get_or '''' (tlv_KERNEL_TEST_TARGET (entry d))
      in if kernel_test_target \<noteq> ''''
         then branch d \<in> set (allowed_branches kernel_test_target)
         else branch d \<in> set [''current'', ''vendor'', ''legacy'', ''edge''])"

definition categorize_step ::
  "board_data \<Rightarrow> board_data list \<times> board_data list \<Rightarrow> board_data list \<times> board_data list" where
  "categorize_step d acc =
     (if \<not> branch_allowed d then acc
      else if support_level d \<in> set [''conf'', ''wip''] then (fst acc @ [d], snd acc)
      else if support_level d \<in> set [''csc'', ''tvb''] then (fst acc, snd acc @ [d])
      else acc)"

definition extract_boards_by_support_level ::
  "entry list \<Rightarrow> extensions_map \<Rightarrow> remove_map \<Rightarrow> string set \<Rightarrow> board_data list \<times> board_data list" where
  "extract_boards_by_support_level image_info extensions_map remove_extensions_map blacklist =
     (let board_data = fold (collect_step extensions_map remove_extensions_map blacklist) image_info []
      in fold categorize_step (map snd board_data) ([], []))"


section \<open>Branch selector\<close>

datatype py_error = KeyError

text \<open>
  The priority dict of one entry: \<^verbatim>\<open>{branch: idx for idx, branch in enumerate(allowed, 1)}\<close>
  when \<^verbatim>\<open>KERNEL_TEST_TARGET\<close> is set (a branch listed twice keeps its last index), the
  default table otherwise.
\<close>

definition default_branch_priority :: "string \<rightharpoonup> nat" where
  "default_branch_priority =
     [''current'' \<mapsto> 1, ''vendor'' \<mapsto> 2, ''legacy'' \<mapsto> 2, ''edge'' \<mapsto> 3]"

definition branch_priority :: "entry \<Rightarrow> string \<rightharpoonup> nat" where
  "branch_priority e =
     (let kernel_test_target = get_or '''' (tlv_KERNEL_TEST_TARGET e)
      in if kernel_test_target \<noteq> ''''
         then (let allowed = allowed_branches kernel_test_target
               in fold (\<lambda>(idx, branch) m. m(branch \<mapsto> idx))
                       (zip [1 ..< Suc (length allowed)] allowed) Map.empty)
         else default_branch_priority)"

text \<open>
  One iteration of the loop of \<^verbatim>\<open>select_one_branch_per_board\<close> over the insertion-ordered
  dict \<^verbatim>\<open>seen_boards\<close>. The comparison looks the stored entry's branch up in the priority
  dict of the current entry; Python raises \<^verbatim>\<open>KeyError\<close> when it is not there.
\<close>

definition select_step ::
  "('a board_data_scheme) \<Rightarrow> (string \<times> 'a board_data_scheme) list \<Rightarrow>
   py_error + (string \<times> 'a board_data_scheme) list" where
  "select_step board_data seen_boards =
     (let branch_priority = branch_priority (entry board_data)
      in case branch_priority (branch board_data) of
           None \<Rightarrow> Inr seen_boards
         | Some p \<Rightarrow>
             (case map_of seen_boards (board board_data) of
                None \<Rightarrow> Inr (seen_boards @ [(board board_data, board_data)])
              | Some stored \<Rightarrow>
                  (case branch_priority (branch stored) of
                     None \<Rightarrow> Inl KeyError
                   | Some q \<Rightarrow>
                       if p < q then Inr (AList.update (board board_data) board_data seen_boards)
                       else Inr seen_boards)))"

fun select_loop ::
  "('a board_data_scheme) list \<Rightarrow> (string \<times> 'a board_data_scheme) list \<Rightarrow>
   py_error + (string \<times> 'a board_data_scheme) list" where
  "select_loop [] seen_boards = Inr seen_boards"
| "select_loop (board_data # boards) seen_boards =
     (case select_step board_data seen_boards of
        Inl err \<Rightarrow> Inl err
      | Inr seen_boards' \<Rightarrow> select_loop boards seen_boards')"

definition select_one_branch_per_board ::
  "('a board_data_scheme) list \<Rightarrow> py_error + ('a board_data_scheme) list" where
  "select_one_branch_per_board boards =
     (case select_loop boards [] of
        Inl err \<Rightarrow> Inl err
      | Inr seen_boards \<Rightarrow> Inr (map snd seen_boards))"


section \<open>Target manifest emitter\<close>

text \<open>
  Each generator of the script builds its document by appending pieces to \<^verbatim>\<open>yaml\<close>. The
  model keeps the pieces: a generator is the list of the pieces it appends, in order (one
  piece per line of a literal, with its newline), and the document is their
  concatenation.
\<close>

definition nl :: string where
  "nl = [CHR 0x0A]"

definition with_newlines :: "string list \<Rightarrow> string list" where
  "with_newlines ls = map (\<lambda>l. l @ nl) ls"


text \<open>Lines 465 to 489 of the source.\<close>

definition yaml_header :: "string list" where
  \<open>yaml_header =
     with_newlines
     [''#'',
      ''# Armbian release template. Auto-generated from image-info.json'',
      ''#'',
      ''common-gha-configs:'',
      ''armbian-gha: &armbian-gha'',
      ''  runners:'',
      ''    default: "ubuntu-latest"'',
      ''    by-name:'',
      ''      kernel: [ "self-hosted", "Linux", "alfa" ]'',
      ''      uboot: [ "self-hosted", "Linux", "fast", "X64" ]'',
      ''      armbian-bsp-cli: [ "X64" ]'',
      ''    by-name-and-arch:'',
      ''      rootfs-armhf: [ "ubuntu-latest" ]'',
      ''      rootfs-arm64: [ "ubuntu-24.04-arm" ]'',
      ''      rootfs-amd64: [ "self-hosted", "Linux", "X64" ]'',
      ''      rootfs-riscv64: [ "ubuntu-latest" ]'',
      ''      rootfs-loong64: [ "self-hosted", "Linux", "X64" ]'',
      ''      image-armhf: [ "self-hosted", "Linux", 'images', 'X64' ]'',
      ''      image-arm64: [ "self-hosted", "Linux", 'images', 'ARM64' ]'',
      ''      image-amd64: [ "self-hosted", "Linux", 'images', "X64" ]'',
      ''      image-riscv64: [ "self-hosted", "Linux", 'images', "X64" ]'',
      ''      image-loong64: [ "self-hosted", "Linux", 'images', "X64" ]'',
      '''',
      ''lists:'']\<close>


definition format_board_item :: "'a board_data_scheme \<Rightarrow> bool \<Rightarrow> string" where
  \<open>format_board_item board_data include_extensions =
     (if include_extensions \<and> extensions board_data \<noteq> ''''
      then ''    - { BOARD: '' @ board board_data @ '', BRANCH: '' @ branch board_data @
           '', ENABLE_EXTENSIONS: "'' @ extensions board_data @ ''" }''
      else ''    - { BOARD: '' @ board board_data @ '', BRANCH: '' @ branch board_data @ '' }'')\<close>

text \<open>
  \<^verbatim>\<open>for board_data in sorted(bucket, key=lambda x: x['board']):
      yaml += format_board_item(board_data, include_extensions=True) + '\n'\<close>
\<close>

definition list_items :: "'a board_data_scheme list \<Rightarrow> string list" where
  "list_items bucket =
     map (\<lambda>board_data. format_board_item board_data True @ nl) (sort_key board bucket)"

text \<open>\<^verbatim>\<open>yaml += '  # end of auto generated section\n\n'\<close>\<close>

definition end_of_list :: "string list" where
  "end_of_list = [''  # end of auto generated section'' @ nl, nl]"

text \<open>
  The block every bucket but the first of a manifest is listed with:
  \<^verbatim>\<open>if bucket:
      yaml += '  NAME: &NAME\n'
      yaml += '  # auto generated section\n'
      for board_data in sorted(bucket, ...): ...
      yaml += '  # end of auto generated section\n\n'\<close>
\<close>

definition list_header :: "string \<Rightarrow> string" where
  "list_header name = ''  '' @ name @ '': &'' @ name @ nl"

definition named_list :: "string \<Rightarrow> 'a board_data_scheme list \<Rightarrow> string list" where
  "named_list name bucket =
     (if bucket \<noteq> []
      then [list_header name, ''  # auto generated section'' @ nl] @ list_items bucket @ end_of_list
      else [])"

text \<open>
  A reference to a list in the items of a target:
  \<^verbatim>\<open>if bucket:
      yaml += '      - *NAME\n'\<close>
\<close>

definition item_ref :: "string \<Rightarrow> string" where
  "item_ref name = ''      - *'' @ name @ nl"

definition list_ref :: "string \<Rightarrow> 'a list \<Rightarrow> string list" where
  "list_ref name bucket = (if bucket \<noteq> [] then [item_ref name] else [])"

text \<open>
  \<^verbatim>\<open>if manual_content:
      indented_manual = '\n'.join('  ' + line if line.strip() else line
                                  for line in manual_content.split('\n'))
      yaml += '\n' + indented_manual\<close>
\<close>

definition manual_block :: "string \<Rightarrow> string list" where
  "manual_block manual_content =
     (if manual_content \<noteq> ''''
      then [nl @ join_str nl (map (\<lambda>line. if strip line \<noteq> '''' then ''  '' @ line else line)
                                  (split_str nl manual_content))]
      else [])"

text \<open>
  \<^verbatim>\<open>[b for b in boards if b['branch'] == br and b['is_fast'] (is | ==) cat]\<close>
\<close>

definition bucket :: "string \<Rightarrow> perf \<Rightarrow> 'a board_data_scheme list \<Rightarrow> 'a board_data_scheme list" where
  "bucket br cat boards = filter (\<lambda>b. branch b = br \<and> is_fast b = cat) boards"


subsection \<open>\<^verbatim>\<open>generate_apps_yaml\<close>\<close>


text \<open>Lines 518 to 521 of the source.\<close>

definition apps_list_open :: "string list" where
  \<open>apps_list_open =
     with_newlines
     [''# Apps builds - one image per board with various extensions'',
      ''  apps-builds: &apps-builds'',
      ''  # auto generated section'']\<close>

text \<open>Lines 528 to 587 of the source.\<close>

definition apps_targets :: "string list" where
  \<open>apps_targets =
     with_newlines
     [''# automated lists stop'',
      '''',
      ''targets:'',
      ''  # Images with app-specific extensions'',
      ''  apps-ha:'',
      ''    enabled: yes'',
      ''    configs: [ armbian-apps ]'',
      ''    pipeline:'',
      ''      gha: *armbian-gha'',
      ''    build-image: "yes"'',
      ''    vars:'',
      ''      RELEASE: trixie'',
      ''      BUILD_MINIMAL: "no"'',
      ''      BUILD_DESKTOP: "no"'',
      ''      ENABLE_EXTENSIONS: "ha"'',
      ''    items:'',
      ''      - *apps-builds'',
      '''',
      ''  apps-omv:'',
      ''    enabled: yes'',
      ''    configs: [ armbian-apps ]'',
      ''    pipeline:'',
      ''      gha: *armbian-gha'',
      ''    build-image: "yes"'',
      ''    vars:'',
      ''      RELEASE: trixie'',
      ''      BUILD_MINIMAL: "yes"'',
      ''      BUILD_DESKTOP: "no"'',
      ''      ENABLE_EXTENSIONS: "omv"'',
      ''    items:'',
      ''      - *apps-builds'',
      '''',
      ''  apps-openhab:'',
      ''    enabled: yes'',
      ''    configs: [ armbian-apps ]'',
      ''    pipeline:'',
      ''      gha: *armbian-gha'',
      ''    build-image: "yes"'',
      ''    vars:'',
      ''      RELEASE: trixie'',
      ''      BUILD_MINIMAL: "no"'',
      ''      BUILD_DESKTOP: "no"'',
      ''      ENABLE_EXTENSIONS: "openhab"'',
      ''    items:'',
      ''      - *apps-builds'',
      '''',
      ''  apps-kali:'',
      ''    enabled: yes'',
      ''    configs: [ armbian-apps ]'',
      ''    pipeline:'',
      ''      gha: *armbian-gha'',
      ''    build-image: "yes"'',
      ''    vars:'',
      ''      RELEASE: sid'',
      ''      BUILD_MINIMAL: "no"'',
      ''      BUILD_DESKTOP: "no"'',
      ''      ENABLE_EXTENSIONS: "kali"'',
      ''    items:'',
      ''      - *apps-builds'']\<close>


text \<open>The pieces, from the boards \<^verbatim>\<open>select_one_branch_per_board\<close> returned.\<close>

definition apps_chunks :: "board_data list \<Rightarrow> string \<Rightarrow> string list" where
  "apps_chunks selected manual_content =
     (let boards = filter (\<lambda>b. arch b \<notin> set [''armhf'', ''riscv64'', ''loongarch64'']) selected;
          boards = sort_key board boards
      in yaml_header
         @ apps_list_open
         @ map (\<lambda>board_data. format_board_item board_data False @ nl) boards
         @ end_of_list
         @ apps_targets
         @ manual_block manual_content)"

definition generate_apps_yaml :: "board_data list \<Rightarrow> string \<Rightarrow> py_error + string" where
  "generate_apps_yaml conf_wip_boards manual_content =
     (case select_one_branch_per_board conf_wip_boards of
        Inl err \<Rightarrow> Inl err
      | Inr boards \<Rightarrow> Inr (concat (apps_chunks boards manual_content)))"


subsection \<open>\<^verbatim>\<open>generate_stable_yaml\<close>\<close>


text \<open>Lines 624 to 627 of the source.\<close>

definition stable_current_fast_open :: "string list" where
  \<open>stable_current_fast_open =
     with_newlines
     [''# Stable builds - fast HDMI (quad-core+ or modern SoCs)'',
      ''  stable-current-fast-hdmi: &stable-current-fast-hdmi'',
      ''  # auto generated section'']\<close>

text \<open>Lines 732 to 748 of the source.\<close>

definition stable_minimal_debian :: "string list" where
  \<open>stable_minimal_debian =
     with_newlines
     [''# automated lists stop'',
      '''',
      ''targets:'',
      ''  # Debian stable minimal'',
      ''  minimal-stable-debian:'',
      ''    enabled: yes'',
      ''    configs: [ armbian-images ]'',
      ''    pipeline:'',
      ''      gha: *armbian-gha'',
      ''    build-image: "yes"'',
      ''    vars:'',
      ''      RELEASE: trixie'',
      ''      BUILD_MINIMAL: "yes"'',
      ''      BUILD_DESKTOP: "no"'',
      ''    items:'',
      ''      - *stable-current-fast-hdmi'']\<close>

text \<open>Lines 778 to 792 of the source.\<close>

definition stable_minimal_ubuntu :: "string list" where
  \<open>stable_minimal_ubuntu =
     with_newlines
     ['''',
      ''  # Ubuntu stable minimal'',
      ''  minimal-stable-ubuntu:'',
      ''    enabled: yes'',
      ''    configs: [ armbian-images ]'',
      ''    pipeline:'',
      ''      gha: *armbian-gha'',
      ''    build-image: "yes"'',
      ''    vars:'',
      ''      RELEASE: noble'',
      ''      BUILD_MINIMAL: "yes"'',
      ''      BUILD_DESKTOP: "no"'',
      ''    items:'',
      ''      - *stable-current-fast-hdmi'']\<close>

text \<open>Lines 824 to 841 of the source.\<close>

definition stable_desktop_xfce :: "string list" where
  \<open>stable_desktop_xfce =
     with_newlines
     ['''',
      ''  # Ubuntu stable XFCE desktop (slow HDMI only)'',
      ''  desktop-stable-ubuntu-xfce:'',
      ''    enabled: yes'',
      ''    configs: [ armbian-images ]'',
      ''    pipeline:'',
      ''      gha: *armbian-gha'',
      ''    build-image: "yes"'',
      ''    vars:'',
      ''      RELEASE: noble'',
      ''      BUILD_MINIMAL: "no"'',
      ''      BUILD_DESKTOP: "yes"'',
      ''      DESKTOP_ENVIRONMENT: "xfce"'',
      ''      DESKTOP_ENVIRONMENT_CONFIG_NAME: "config_base"'',
      ''      DESKTOP_APPGROUPS_SELECTED: "programming"'',
      ''    items:'',
      ''      - *stable-current-slow-hdmi'']\<close>

text \<open>Lines 847 to 863 of the source.\<close>

definition stable_desktop_gnome :: "string list" where
  \<open>stable_desktop_gnome =
     with_newlines
     ['''',
      ''  # Ubuntu stable GNOME desktop (fast HDMI only)'',
      ''  desktop-stable-ubuntu-gnome:'',
      ''    enabled: yes'',
      ''    configs: [ armbian-images ]'',
      ''    pipeline:'',
      ''      gha: *armbian-gha'',
      ''    build-image: "yes"'',
      ''    vars:'',
      ''      RELEASE: noble'',
      ''      BUILD_MINIMAL: "no"'',
      ''      BUILD_DESKTOP: "yes"'',
      ''      DESKTOP_ENVIRONMENT: "gnome"'',
      ''      DESKTOP_ENVIRONMENT_CONFIG_NAME: "config_base"'',
      ''      DESKTOP_APPGROUPS_SELECTED: "programming"'',
      ''    items:'']\<close>

text \<open>Lines 873 to 890 of the source.\<close>

definition stable_desktop_kde_neon :: "string list" where
  \<open>stable_desktop_kde_neon =
     with_newlines
     ['''',
      ''  # Ubuntu stable KDE Neon desktop (fast HDMI only)'',
      ''  desktop-stable-ubuntu-kde-neon:'',
      ''    enabled: yes'',
      ''    configs: [ armbian-images ]'',
      ''    pipeline:'',
      ''      gha: *armbian-gha'',
      ''    build-image: "yes"'',
      ''    vars:'',
      ''      RELEASE: noble'',
      ''      BUILD_MINIMAL: "no"'',
      ''      BUILD_DESKTOP: "yes"'',
      ''      DESKTOP_ENVIRONMENT: "kde-neon"'',
      ''      DESKTOP_ENVIRONMENT_CONFIG_NAME: "config_base"'',
      ''      DESKTOP_APPGROUPS_SELECTED: "programming"'',
      ''    items:'',
      ''      - *stable-current-fast-hdmi'']\<close>

text \<open>Lines 896 to 913 of the source.\<close>

definition stable_desktop_legacy_xfce :: "string list" where
  \<open>stable_desktop_legacy_xfce =
     with_newlines
     ['''',
      ''  # Ubuntu stable XFCE desktop for legacy fast HDMI boards'',
      ''  desktop-stable-ubuntu-legacy-xfce:'',
      ''    enabled: yes'',
      ''    configs: [ armbian-images ]'',
      ''    pipeline:'',
      ''      gha: *armbian-gha'',
      ''    build-image: "yes"'',
      ''    vars:'',
      ''      RELEASE: noble'',
      ''      BUILD_MINIMAL: "no"'',
      ''      BUILD_DESKTOP: "yes"'',
      ''      DESKTOP_ENVIRONMENT: "xfce"'',
      ''      DESKTOP_ENVIRONMENT_CONFIG_NAME: "config_base"'',
      ''      DESKTOP_APPGROUPS_SELECTED: "programming"'',
      ''    items:'',
      ''      - *stable-legacy-fast-hdmi'']\<close>

text \<open>Lines 917 to 933 of the source.\<close>

definition stable_desktop_riscv64_xfce :: "string list" where
  \<open>stable_desktop_riscv64_xfce =
     with_newlines
     ['''',
      ''  # Ubuntu stable XFCE desktop for RISC-V boards'',
      ''  desktop-stable-ubuntu-riscv64-xfce:'',
      ''    enabled: yes'',
      ''    configs: [ armbian-images ]'',
      ''    pipeline:'',
      ''      gha: *armbian-gha'',
      ''    build-image: "yes"'',
      ''    vars:'',
      ''      RELEASE: noble'',
      ''      BUILD_MINIMAL: "no"'',
      ''      BUILD_DESKTOP: "yes"'',
      ''      DESKTOP_ENVIRONMENT: "xfce"'',
      ''      DESKTOP_ENVIRONMENT_CONFIG_NAME: "config_base"'',
      ''      DESKTOP_APPGROUPS_SELECTED: ""'',
      ''    items:'']\<close>

text \<open>Lines 946 to 959 of the source.\<close>

definition stable_minimal_riscv :: "string list" where
  \<open>stable_minimal_riscv =
     with_newlines
     ['''',
      ''  # Ubuntu stable minimal - RISC-V'',
      ''  minimal-stable-ubuntu-riscv:'',
      ''    enabled: yes'',
      ''    configs: [ armbian-images ]'',
      ''    pipeline:'',
      ''      gha: *armbian-gha'',
      ''    build-image: "yes"'',
      ''    vars:'',
      ''      RELEASE: noble'',
      ''      BUILD_MINIMAL: "yes"'',
      ''      BUILD_DESKTOP: "no"'',
      ''    items:'']\<close>

text \<open>Lines 968 to 981 of the source.\<close>

definition stable_minimal_loongarch :: "string list" where
  \<open>stable_minimal_loongarch =
     with_newlines
     ['''',
      ''  # Ubuntu stable minimal - LoongArch'',
      ''  minimal-stable-ubuntu-loongarch:'',
      ''    enabled: yes'',
      ''    configs: [ armbian-images ]'',
      ''    pipeline:'',
      ''      gha: *armbian-gha'',
      ''    build-image: "yes"'',
      ''    vars:'',
      ''      RELEASE: noble'',
      ''      BUILD_MINIMAL: "yes"'',
      ''      BUILD_DESKTOP: "no"'',
      ''    items:'']\<close>


definition stable_chunks :: "board_data list \<Rightarrow> string \<Rightarrow> string list" where
  "stable_chunks conf_wip_boards manual_content =
     (let current_fast = bucket ''current'' Fast conf_wip_boards;
          current_slow = bucket ''current'' Slow conf_wip_boards;
          current_riscv64 = bucket ''current'' Riscv64 conf_wip_boards;
          current_loongarch = bucket ''current'' Loongarch conf_wip_boards;
          current_headless = bucket ''current'' Headless conf_wip_boards;
          vendor_fast = bucket ''vendor'' Fast conf_wip_boards;
          vendor_slow = bucket ''vendor'' Slow conf_wip_boards;
          vendor_riscv64 = bucket ''vendor'' Riscv64 conf_wip_boards;
          vendor_loongarch = bucket ''vendor'' Loongarch conf_wip_boards;
          vendor_headless = bucket ''vendor'' Headless conf_wip_boards;
          legacy_fast = bucket ''legacy'' Fast conf_wip_boards;
          legacy_slow = bucket ''legacy'' Slow conf_wip_boards;
          legacy_riscv64 = bucket ''legacy'' Riscv64 conf_wip_boards;
          legacy_loongarch = bucket ''legacy'' Loongarch conf_wip_boards;
          legacy_headless = bucket ''legacy'' Headless conf_wip_boards
      in yaml_header
         @ stable_current_fast_open @ list_items current_fast @ end_of_list
         @ named_list ''stable-current-slow-hdmi'' current_slow
         @ named_list ''stable-current-riscv64'' current_riscv64
         @ named_list ''stable-current-loongarch'' current_loongarch
         @ named_list ''stable-current-headless'' current_headless
         @ named_list ''stable-vendor-fast-hdmi'' vendor_fast
         @ named_list ''stable-vendor-slow-hdmi'' vendor_slow
         @ named_list ''stable-vendor-riscv64'' vendor_riscv64
         @ named_list ''stable-vendor-loongarch'' vendor_loongarch
         @ named_list ''stable-vendor-headless'' vendor_headless
         @ named_list ''stable-legacy-fast-hdmi'' legacy_fast
         @ named_list ''stable-legacy-slow-hdmi'' legacy_slow
         @ named_list ''stable-legacy-riscv64'' legacy_riscv64
         @ named_list ''stable-legacy-loongarch'' legacy_loongarch
         @ named_list ''stable-legacy-headless'' legacy_headless
         @ stable_minimal_debian
         @ list_ref ''stable-current-slow-hdmi'' current_slow
         @ list_ref ''stable-current-riscv64'' current_riscv64
         @ list_ref ''stable-current-loongarch'' current_loongarch
         @ list_ref ''stable-current-headless'' current_headless
         @ list_ref ''stable-vendor-fast-hdmi'' vendor_fast
         @ list_ref ''stable-vendor-slow-hdmi'' vendor_slow
         @ list_ref ''stable-vendor-riscv64'' vendor_riscv64
         @ list_ref ''stable-vendor-loongarch'' vendor_loongarch
         @ list_ref ''stable-vendor-headless'' vendor_headless
         @ list_ref ''stable-legacy-fast-hdmi'' legacy_fast
         @ list_ref ''stable-legacy-slow-hdmi'' legacy_slow
         @ list_ref ''stable-legacy-riscv64'' legacy_riscv64
         @ list_ref ''stable-legacy-loongarch'' legacy_loongarch
         @ list_ref ''stable-legacy-headless'' legacy_headless
         @ stable_minimal_ubuntu
         @ list_ref ''stable-current-slow-hdmi'' current_slow
         @ list_ref ''stable-current-riscv64'' current_riscv64
         @ list_ref ''stable-current-loongarch'' current_loongarch
         @ list_ref ''stable-current-headless'' current_headless
         @ list_ref ''stable-vendor-fast-hdmi'' vendor_fast
         @ list_ref ''stable-vendor-slow-hdmi'' vendor_slow
         @ list_ref ''stable-vendor-riscv64'' vendor_riscv64
         @ list_ref ''stable-vendor-loongarch'' vendor_loongarch
         @ list_ref ''stable-vendor-headless'' vendor_headless
         @ list_ref ''stable-legacy-fast-hdmi'' legacy_fast
         @ list_ref ''stable-legacy-slow-hdmi'' legacy_slow
         @ list_ref ''stable-legacy-riscv64'' legacy_riscv64
         @ list_ref ''stable-legacy-loongarch'' legacy_loongarch
         @ list_ref ''stable-legacy-headless'' legacy_headless
         @ (if current_slow \<noteq> []
            then stable_desktop_xfce
                 @ list_ref ''stable-vendor-slow-hdmi'' vendor_slow
            else [])
         @ (if current_fast \<noteq> [] \<or> legacy_fast \<noteq> []
            then stable_desktop_gnome
                 @ list_ref ''stable-current-fast-hdmi'' current_fast
                 @ list_ref ''stable-vendor-fast-hdmi'' vendor_fast
                 @ list_ref ''stable-legacy-fast-hdmi'' legacy_fast
            else [])
         @ (if current_fast \<noteq> []
            then stable_desktop_kde_neon
                 @ list_ref ''stable-vendor-fast-hdmi'' vendor_fast
            else [])
         @ (if legacy_fast \<noteq> []
            then stable_desktop_legacy_xfce
            else [])
         @ (if current_riscv64 \<noteq> [] \<or> vendor_riscv64 \<noteq> []
            then stable_desktop_riscv64_xfce
                 @ list_ref ''stable-current-riscv64'' current_riscv64
                 @ list_ref ''stable-vendor-riscv64'' vendor_riscv64
            else [])
         @ manual_block manual_content
         @ (if current_riscv64 \<noteq> [] \<or> vendor_riscv64 \<noteq> []
            then stable_minimal_riscv
                 @ list_ref ''stable-current-riscv64'' current_riscv64
                 @ list_ref ''stable-vendor-riscv64'' vendor_riscv64
                 @ [nl]
            else [])
         @ (if current_loongarch \<noteq> [] \<or> vendor_loongarch \<noteq> []
            then stable_minimal_loongarch
                 @ list_ref ''stable-current-loongarch'' current_loongarch
                 @ list_ref ''stable-vendor-loongarch'' vendor_loongarch
                 @ [nl]
            else []))"

definition generate_stable_yaml :: "board_data list \<Rightarrow> string \<Rightarrow> string" where
  "generate_stable_yaml conf_wip_boards manual_content =
     concat (stable_chunks conf_wip_boards manual_content)"


subsection \<open>\<^verbatim>\<open>generate_nightly_yaml\<close>\<close>


text \<open>Lines 1014 to 1017 of the source.\<close>

definition nightly_fast_open :: "string list" where
  \<open>nightly_fast_open =
     with_newlines
     [''# Nightly builds - fast HDMI (quad-core+ or modern SoCs)'',
      ''  nightly-fast-hdmi: &nightly-fast-hdmi'',
      ''  # auto generated section'']\<close>

text \<open>Lines 1051 to 1066 of the source.\<close>

definition nightly_forky_all :: "string list" where
  \<open>nightly_forky_all =
     with_newlines
     [''# automated lists stop'',
      '''',
      ''targets:'',
      ''  # Debian forky minimal CLI for all boards'',
      ''  nightly-forky-all:'',
      ''    enabled: yes'',
      ''    configs: [ armbian-images ]'',
      ''    pipeline:'',
      ''      gha: *armbian-gha'',
      ''    build-image: "yes"'',
      ''    vars:'',
      ''      RELEASE: forky'',
      ''      BUILD_MINIMAL: "yes"'',
      ''      BUILD_DESKTOP: "no"'',
      ''    items:'']\<close>

text \<open>Lines 1078 to 1095 of the source.\<close>

definition nightly_noble_gnome :: "string list" where
  \<open>nightly_noble_gnome =
     with_newlines
     ['''',
      ''  # Ubuntu noble GNOME desktop for fast HDMI boards'',
      ''  nightly-noble-gnome:'',
      ''    enabled: yes'',
      ''    configs: [ armbian-images ]'',
      ''    pipeline:'',
      ''      gha: *armbian-gha'',
      ''    build-image: "yes"'',
      ''    vars:'',
      ''      RELEASE: noble'',
      ''      BUILD_MINIMAL: "no"'',
      ''      BUILD_DESKTOP: "yes"'',
      ''      DESKTOP_ENVIRONMENT: "gnome"'',
      ''      DESKTOP_ENVIRONMENT_CONFIG_NAME: "config_base"'',
      ''      DESKTOP_APPGROUPS_SELECTED: ""'',
      ''    items:'',
      ''      - *nightly-fast-hdmi'']\<close>

text \<open>Lines 1099 to 1116 of the source.\<close>

definition nightly_noble_xfce :: "string list" where
  \<open>nightly_noble_xfce =
     with_newlines
     ['''',
      ''  # Ubuntu noble XFCE desktop for slow HDMI boards'',
      ''  nightly-noble-xfce:'',
      ''    enabled: yes'',
      ''    configs: [ armbian-images ]'',
      ''    pipeline:'',
      ''      gha: *armbian-gha'',
      ''    build-image: "yes"'',
      ''    vars:'',
      ''      RELEASE: noble'',
      ''      BUILD_MINIMAL: "no"'',
      ''      BUILD_DESKTOP: "yes"'',
      ''      DESKTOP_ENVIRONMENT: "xfce"'',
      ''      DESKTOP_ENVIRONMENT_CONFIG_NAME: "config_base"'',
      ''      DESKTOP_APPGROUPS_SELECTED: ""'',
      ''    items:'',
      ''      - *nightly-slow-hdmi'']\<close>

text \<open>Lines 1120 to 1137 of the source.\<close>

definition nightly_noble_riscv64_xfce :: "string list" where
  \<open>nightly_noble_riscv64_xfce =
     with_newlines
     ['''',
      ''  # Ubuntu noble XFCE desktop for RISC-V boards'',
      ''  nightly-noble-riscv64-xfce:'',
      ''    enabled: yes'',
      ''    configs: [ armbian-images ]'',
      ''    pipeline:'',
      ''      gha: *armbian-gha'',
      ''    build-image: "yes"'',
      ''    vars:'',
      ''      RELEASE: noble'',
      ''      BUILD_MINIMAL: "no"'',
      ''      BUILD_DESKTOP: "yes"'',
      ''      DESKTOP_ENVIRONMENT: "xfce"'',
      ''      DESKTOP_ENVIRONMENT_CONFIG_NAME: "config_base"'',
      ''      DESKTOP_APPGROUPS_SELECTED: ""'',
      ''    items:'',
      ''      - *nightly-riscv64'']\<close>

text \<open>Lines 1141 to 1155 of the source.\<close>

definition nightly_noble_minimal :: "string list" where
  \<open>nightly_noble_minimal =
     with_newlines
     ['''',
      ''  # Ubuntu noble minimal CLI for headless boards'',
      ''  nightly-noble-minimal:'',
      ''    enabled: yes'',
      ''    configs: [ armbian-images ]'',
      ''    pipeline:'',
      ''      gha: *armbian-gha'',
      ''    build-image: "yes"'',
      ''    vars:'',
      ''      RELEASE: noble'',
      ''      BUILD_MINIMAL: "yes"'',
      ''      BUILD_DESKTOP: "no"'',
      ''    items:'',
      ''      - *nightly-headless'']\<close>


text \<open>The pieces, from the boards \<^verbatim>\<open>select_one_branch_per_board\<close> returned.\<close>

definition nightly_chunks :: "board_data list \<Rightarrow> string \<Rightarrow> string list" where
  "nightly_chunks boards manual_content =
     (let fast_boards = filter (\<lambda>b. is_fast b = Fast) boards;
          slow_boards = filter (\<lambda>b. is_fast b = Slow) boards;
          riscv64_boards = filter (\<lambda>b. is_fast b = Riscv64) boards;
          loongarch_boards = filter (\<lambda>b. is_fast b = Loongarch) boards;
          headless_boards = filter (\<lambda>b. is_fast b = Headless) boards
      in yaml_header
         @ nightly_fast_open @ list_items fast_boards @ end_of_list
         @ named_list ''nightly-slow-hdmi'' slow_boards
         @ named_list ''nightly-riscv64'' riscv64_boards
         @ named_list ''nightly-loongarch'' loongarch_boards
         @ named_list ''nightly-headless'' headless_boards
         @ nightly_forky_all
         @ [item_ref ''nightly-fast-hdmi'']
         @ list_ref ''nightly-slow-hdmi'' slow_boards
         @ list_ref ''nightly-headless'' headless_boards
         @ list_ref ''nightly-riscv64'' riscv64_boards
         @ list_ref ''nightly-loongarch'' loongarch_boards
         @ nightly_noble_gnome
         @ (if slow_boards \<noteq> [] then nightly_noble_xfce else [])
         @ (if riscv64_boards \<noteq> [] then nightly_noble_riscv64_xfce else [])
         @ (if headless_boards \<noteq> [] then nightly_noble_minimal else [])
         @ manual_block manual_content)"

definition generate_nightly_yaml :: "board_data list \<Rightarrow> string \<Rightarrow> py_error + string" where
  "generate_nightly_yaml conf_wip_boards manual_content =
     (case select_one_branch_per_board conf_wip_boards of
        Inl err \<Rightarrow> Inl err
      | Inr boards \<Rightarrow> Inr (concat (nightly_chunks boards manual_content)))"


subsection \<open>\<^verbatim>\<open>generate_community_yaml\<close>\<close>


text \<open>Lines 1205 to 1208 of the source.\<close>

definition community_current_fast_open :: "string list" where
  \<open>community_current_fast_open =
     with_newlines
     [''# Community builds - fast HDMI (current branch)'',
      ''  community-current-fast-hdmi: &community-current-fast-hdmi'',
      ''  # auto generated section'']\<close>

text \<open>Lines 1314 to 1329 of the source.\<close>

definition community_trixie_all :: "string list" where
  \<open>community_trixie_all =
     with_newlines
     [''# automated lists stop'',
      '''',
      ''targets:'',
      ''  # Debian trixie minimal CLI for all community boards'',
      ''  community-trixie-all:'',
      ''    enabled: yes'',
      ''    configs: [ armbian-community ]'',
      ''    pipeline:'',
      ''      gha: *armbian-gha'',
      ''    build-image: "yes"'',
      ''    vars:'',
      ''      RELEASE: trixie'',
      ''      BUILD_MINIMAL: "yes"'',
      ''      BUILD_DESKTOP: "no"'',
      ''    items:'']\<close>

text \<open>Lines 1361 to 1378 of the source.\<close>

definition community_noble_gnome :: "string list" where
  \<open>community_noble_gnome =
     with_newlines
     ['''',
      ''  # Ubuntu noble GNOME desktop for fast HDMI community boards'',
      ''  community-noble-gnome:'',
      ''    enabled: yes'',
      ''    configs: [ armbian-community ]'',
      ''    pipeline:'',
      ''      gha: *armbian-gha'',
      ''    build-image: "yes"'',
      ''    vars:'',
      ''      RELEASE: noble'',
      ''      BUILD_MINIMAL: "no"'',
      ''      BUILD_DESKTOP: "yes"'',
      ''      DESKTOP_ENVIRONMENT: "gnome"'',
      ''      DESKTOP_ENVIRONMENT_CONFIG_NAME: "config_base"'',
      ''      DESKTOP_APPGROUPS_SELECTED: ""'',
      ''    items:'',
      ''      - *community-current-fast-hdmi'']\<close>

text \<open>Lines 1386 to 1403 of the source.\<close>

definition community_noble_kde_neon :: "string list" where
  \<open>community_noble_kde_neon =
     with_newlines
     ['''',
      ''  # Ubuntu noble KDE Neon desktop for fast HDMI community boards'',
      ''  community-noble-kde-neon:'',
      ''    enabled: yes'',
      ''    configs: [ armbian-community ]'',
      ''    pipeline:'',
      ''      gha: *armbian-gha'',
      ''    build-image: "yes"'',
      ''    vars:'',
      ''      RELEASE: noble'',
      ''      BUILD_MINIMAL: "no"'',
      ''      BUILD_DESKTOP: "yes"'',
      ''      DESKTOP_ENVIRONMENT: "kde-neon"'',
      ''      DESKTOP_ENVIRONMENT_CONFIG_NAME: "config_base"'',
      ''      DESKTOP_APPGROUPS_SELECTED: ""'',
      ''    items:'',
      ''      - *community-current-fast-hdmi'']\<close>

text \<open>Lines 1411 to 1427 of the source.\<close>

definition community_noble_xfce :: "string list" where
  \<open>community_noble_xfce =
     with_newlines
     ['''',
      ''  # Ubuntu noble XFCE desktop for slow HDMI community boards'',
      ''  community-noble-xfce:'',
      ''    enabled: yes'',
      ''    configs: [ armbian-community ]'',
      ''    pipeline:'',
      ''      gha: *armbian-gha'',
      ''    build-image: "yes"'',
      ''    vars:'',
      ''      RELEASE: noble'',
      ''      BUILD_MINIMAL: "no"'',
      ''      BUILD_DESKTOP: "yes"'',
      ''      DESKTOP_ENVIRONMENT: "xfce"'',
      ''      DESKTOP_ENVIRONMENT_CONFIG_NAME: "config_base"'',
      ''      DESKTOP_APPGROUPS_SELECTED: ""'',
      ''    items:'']\<close>

text \<open>Lines 1437 to 1453 of the source.\<close>

definition community_noble_riscv64_xfce :: "string list" where
  \<open>community_noble_riscv64_xfce =
     with_newlines
     ['''',
      ''  # Ubuntu noble XFCE desktop for RISC-V community boards'',
      ''  community-noble-riscv64-xfce:'',
      ''    enabled: yes'',
      ''    configs: [ armbian-community ]'',
      ''    pipeline:'',
      ''      gha: *armbian-gha'',
      ''    build-image: "yes"'',
      ''    vars:'',
      ''      RELEASE: noble'',
      ''      BUILD_MINIMAL: "no"'',
      ''      BUILD_DESKTOP: "yes"'',
      ''      DESKTOP_ENVIRONMENT: "xfce"'',
      ''      DESKTOP_ENVIRONMENT_CONFIG_NAME: "config_base"'',
      ''      DESKTOP_APPGROUPS_SELECTED: ""'',
      ''    items:'']\<close>

text \<open>Lines 1463 to 1476 of the source.\<close>

definition community_noble_minimal :: "string list" where
  \<open>community_noble_minimal =
     with_newlines
     ['''',
      ''  # Ubuntu noble minimal CLI for headless community boards'',
      ''  community-noble-minimal:'',
      ''    enabled: yes'',
      ''    configs: [ armbian-community ]'',
      ''    pipeline:'',
      ''      gha: *armbian-gha'',
      ''    build-image: "yes"'',
      ''    vars:'',
      ''      RELEASE: noble'',
      ''      BUILD_MINIMAL: "yes"'',
      ''      BUILD_DESKTOP: "no"'',
      ''    items:'']\<close>


text \<open>
  The edge buckets of the community manifest: the boards on \<^verbatim>\<open>edge\<close> that have no
  \<^verbatim>\<open>current\<close> entry.
  \<^verbatim>\<open>current_boards = {b['board'] for b in csc_tvb_boards if b['branch'] == 'current'}
  [b for b in csc_tvb_boards if b['branch'] == 'edge' and b['is_fast'] (is | ==) cat
                              and b['board'] not in current_boards]\<close>
\<close>

definition edge_bucket :: "perf \<Rightarrow> 'a board_data_scheme list \<Rightarrow> 'a board_data_scheme list" where
  "edge_bucket cat boards =
     (let current_boards = board ` set (filter (\<lambda>b. branch b = ''current'') boards)
      in filter (\<lambda>b. branch b = ''edge'' \<and> is_fast b = cat \<and> board b \<notin> current_boards) boards)"

definition community_chunks :: "board_data list \<Rightarrow> string \<Rightarrow> string list" where
  "community_chunks csc_tvb_boards manual_content =
     (let current_fast = bucket ''current'' Fast csc_tvb_boards;
          current_slow = bucket ''current'' Slow csc_tvb_boards;
          current_headless = bucket ''current'' Headless csc_tvb_boards;
          current_riscv64 = bucket ''current'' Riscv64 csc_tvb_boards;
          current_loongarch = bucket ''current'' Loongarch csc_tvb_boards;
          vendor_fast = bucket ''vendor'' Fast csc_tvb_boards;
          vendor_slow = bucket ''vendor'' Slow csc_tvb_boards;
          vendor_headless = bucket ''vendor'' Headless csc_tvb_boards;
          vendor_riscv64 = bucket ''vendor'' Riscv64 csc_tvb_boards;
          vendor_loongarch = bucket ''vendor'' Loongarch csc_tvb_boards;
          legacy_fast = bucket ''legacy'' Fast csc_tvb_boards;
          legacy_slow = bucket ''legacy'' Slow csc_tvb_boards;
          legacy_headless = bucket ''legacy'' Headless csc_tvb_boards;
          legacy_riscv64 = bucket ''legacy'' Riscv64 csc_tvb_boards;
          legacy_loongarch = bucket ''legacy'' Loongarch csc_tvb_boards;
          edge_fast = edge_bucket Fast csc_tvb_boards;
          edge_slow = edge_bucket Slow csc_tvb_boards;
          edge_headless = edge_bucket Headless csc_tvb_boards;
          edge_riscv64 = edge_bucket Riscv64 csc_tvb_boards;
          edge_loongarch = edge_bucket Loongarch csc_tvb_boards
      in yaml_header
         @ community_current_fast_open @ list_items current_fast @ end_of_list
         @ named_list ''community-current-slow-hdmi'' current_slow
         @ named_list ''community-current-headless'' current_headless
         @ named_list ''community-current-riscv64'' current_riscv64
         @ named_list ''community-current-loongarch'' current_loongarch
         @ named_list ''community-vendor-fast-hdmi'' vendor_fast
         @ named_list ''community-vendor-slow-hdmi'' vendor_slow
         @ named_list ''community-vendor-headless'' vendor_headless
         @ named_list ''community-vendor-riscv64'' vendor_riscv64
         @ named_list ''community-vendor-loongarch'' vendor_loongarch
         @ named_list ''community-edge-fast-hdmi'' edge_fast
         @ named_list ''community-edge-slow-hdmi'' edge_slow
         @ named_list ''community-edge-headless'' edge_headless
         @ named_list ''community-edge-riscv64'' edge_riscv64
         @ named_list ''community-edge-loongarch'' edge_loongarch
         @ community_trixie_all
         @ [item_ref ''community-current-fast-hdmi'']
         @ list_ref ''community-current-slow-hdmi'' current_slow
         @ list_ref ''community-current-headless'' current_headless
         @ list_ref ''community-current-riscv64'' current_riscv64
         @ list_ref ''community-current-loongarch'' current_loongarch
         @ list_ref ''community-vendor-fast-hdmi'' vendor_fast
         @ list_ref ''community-vendor-slow-hdmi'' vendor_slow
         @ list_ref ''community-vendor-headless'' vendor_headless
         @ list_ref ''community-vendor-riscv64'' vendor_riscv64
         @ list_ref ''community-vendor-loongarch'' vendor_loongarch
         @ list_ref ''community-edge-fast-hdmi'' edge_fast
         @ list_ref ''community-edge-slow-hdmi'' edge_slow
         @ list_ref ''community-edge-headless'' edge_headless
         @ list_ref ''community-edge-riscv64'' edge_riscv64
         @ list_ref ''community-edge-loongarch'' edge_loongarch
         @ community_noble_gnome
         @ list_ref ''community-vendor-fast-hdmi'' vendor_fast
         @ list_ref ''community-edge-fast-hdmi'' edge_fast
         @ (if current_fast \<noteq> [] \<or> vendor_fast \<noteq> [] \<or> edge_fast \<noteq> []
            then community_noble_kde_neon
                 @ list_ref ''community-vendor-fast-hdmi'' vendor_fast
                 @ list_ref ''community-edge-fast-hdmi'' edge_fast
            else [])
         @ (if current_slow \<noteq> [] \<or> vendor_slow \<noteq> [] \<or> edge_slow \<noteq> []
            then community_noble_xfce
                 @ list_ref ''community-current-slow-hdmi'' current_slow
                 @ list_ref ''community-vendor-slow-hdmi'' vendor_slow
                 @ list_ref ''community-edge-slow-hdmi'' edge_slow
            else [])
         @ (if current_riscv64 \<noteq> [] \<or> vendor_riscv64 \<noteq> [] \<or> edge_riscv64 \<noteq> []
            then community_noble_riscv64_xfce
                 @ list_ref ''community-current-riscv64'' current_riscv64
                 @ list_ref ''community-vendor-riscv64'' vendor_riscv64
                 @ list_ref ''community-edge-riscv64'' edge_riscv64
            else [])
         @ (if current_headless \<noteq> [] \<or> vendor_headless \<noteq> [] \<or> edge_headless \<noteq> []
            then community_noble_minimal
                 @ list_ref ''community-current-headless'' current_headless
                 @ list_ref ''community-vendor-headless'' vendor_headless
                 @ list_ref ''community-edge-headless'' edge_headless
            else [])
         @ manual_block manual_content)"

definition generate_community_yaml :: "board_data list \<Rightarrow> string \<Rightarrow> string" where
  "generate_community_yaml csc_tvb_boards manual_content =
     concat (community_chunks csc_tvb_boards manual_content)"


section \<open>Exposure pattern emitter\<close>

text \<open>
  \<^verbatim>\<open>str.capitalize()\<close> on an ASCII string: the first character in upper case, the rest in
  lower case.
\<close>

definition ascii_upper :: "char \<Rightarrow> char" where
  "ascii_upper c =
     (case map_of (zip ''abcdefghijklmnopqrstuvwxyz'' ''ABCDEFGHIJKLMNOPQRSTUVWXYZ'') c of
        Some u \<Rightarrow> u
      | None \<Rightarrow> c)"

definition ascii_lower :: "char \<Rightarrow> char" where
  "ascii_lower c =
     (case map_of (zip ''ABCDEFGHIJKLMNOPQRSTUVWXYZ'' ''abcdefghijklmnopqrstuvwxyz'') c of
        Some l \<Rightarrow> l
      | None \<Rightarrow> c)"

definition capitalize_board_name :: "string \<Rightarrow> string" where
  "capitalize_board_name b =
     (case b of [] \<Rightarrow> [] | c # cs \<Rightarrow> ascii_upper c # map ascii_lower cs)"

text \<open>
  The boards of \<^verbatim>\<open>generate_exposed_map\<close> carry one more key,
  \<^verbatim>\<open>{**board, 'board_type': 'stable'}\<close> or \<^verbatim>\<open>'community'\<close>.
\<close>

record tagged_board = board_data +
  board_type :: string

definition tag_board :: "string \<Rightarrow> board_data \<Rightarrow> tagged_board" where
  "tag_board t b = board_data.extend b (tagged_board.fields t)"

text \<open>
  Every pattern of the function is one f-string of the shape
  \<^verbatim>\<open>Armbian_{community_prefix}[0-9].*{board_pattern}_RELEASE_{branch}_[0-9]*.[0-9]*.[0-9]*_KIND{file_ext}\<close>,
  once after \<^verbatim>\<open>{dir_prefix}\<close> and once without it.
\<close>

definition pattern_pair ::
  "string \<Rightarrow> string \<Rightarrow> string \<Rightarrow> string \<Rightarrow> string \<Rightarrow> string \<Rightarrow> string \<Rightarrow> string list" where
  "pattern_pair dir_prefix community_prefix board_pattern release br kind file_ext =
     (let no_prefix = ''Armbian_'' @ community_prefix @ ''[0-9].*'' @ board_pattern @ ''_'' @ release @
                      ''_'' @ br @ ''_[0-9]*.[0-9]*.[0-9]*_'' @ kind @ file_ext
      in [dir_prefix @ no_prefix, no_prefix])"

text \<open>The lines one iteration of the loop over \<^verbatim>\<open>all_boards\<close> appends.\<close>

definition exposed_board_lines :: "tagged_board \<Rightarrow> string list" where
  "exposed_board_lines board_data =
     (let board_has_video = get_or False (inv_BOARD_HAS_VIDEO (entry board_data));
          file_ext = (if contains_str ''image-output-oowow'' (extensions board_data)
                      then ''.oowow.img.xz'' else ''.img.xz'');
          dir_prefix = board board_data @ ''/archive/'';
          community_prefix = (if board_type board_data = ''community'' then ''(community_)?'' else '''');
          board_pattern = capitalize_board_name (board board_data);
          pair = (\<lambda>release kind.
                    pattern_pair dir_prefix community_prefix board_pattern release
                      (branch board_data) kind file_ext)
      in pair ''trixie'' ''minimal''
         @ (if is_fast board_data = Loongarch then []
            else if is_fast board_data = Riscv64 then pair ''noble'' ''xfce_desktop''
            else if board_has_video \<and> is_fast board_data \<noteq> Headless
            then (if is_fast board_data = Fast then pair ''noble'' ''gnome_desktop''
                  else pair ''noble'' ''xfce_desktop'')
            else pair ''noble'' ''minimal''))"

text \<open>
  The lines of the table, and the table. (The warning the function prints to \<^verbatim>\<open>stderr\<close>
  for the boards with a single image is not part of the file.)
\<close>

definition exposed_lines :: "tagged_board list \<Rightarrow> string list" where
  "exposed_lines selected = concat (map exposed_board_lines (sort_key board selected))"

definition generate_exposed_map :: "board_data list \<Rightarrow> board_data list \<Rightarrow> py_error + string" where
  "generate_exposed_map conf_wip_boards csc_tvb_boards =
     (let stable_boards = map (tag_board ''stable'') conf_wip_boards;
          community_boards = map (tag_board ''community'') csc_tvb_boards
      in case select_one_branch_per_board (stable_boards @ community_boards) of
           Inl err \<Rightarrow> Inl err
         | Inr all_boards \<Rightarrow> Inr (join_str nl (exposed_lines all_boards) @ nl))"


section \<open>The run\<close>

text \<open>
  The inputs of \<^verbatim>\<open>main\<close> once the files are read: the inventory, the two side tables, and
  per manifest its blacklist and its manual block. The five documents it writes, in the
  order it writes them; a \<^verbatim>\<open>KeyError\<close> in a generator ends the run.
\<close>

record run_inputs =
  image_info :: "entry list"
  extensions_table :: extensions_map
  remove_table :: remove_map
  blacklist_apps :: "string set"
  manual_apps :: string
  blacklist_stable :: "string set"
  manual_stable :: string
  blacklist_nightly :: "string set"
  manual_nightly :: string
  blacklist_community :: "string set"
  manual_community :: string

record run_outputs =
  apps_yaml :: string
  stable_yaml :: string
  nightly_yaml :: string
  community_yaml :: string
  exposed_map :: string

definition main :: "run_inputs \<Rightarrow> py_error + run_outputs" where
  "main inp =
     (let extract = (\<lambda>blacklist.
            extract_boards_by_support_level (image_info inp) (extensions_table inp)
              (remove_table inp) blacklist);
          conf_wip_boards_apps = fst (extract (blacklist_apps inp));
          conf_wip_boards_stable = fst (extract (blacklist_stable inp));
          conf_wip_boards_nightly = fst (extract (blacklist_nightly inp));
          csc_tvb_boards_community = snd (extract (blacklist_community inp))
      in case generate_apps_yaml conf_wip_boards_apps (manual_apps inp) of
           Inl err \<Rightarrow> Inl err
         | Inr apps \<Rightarrow>
        (let stable = generate_stable_yaml conf_wip_boards_stable (manual_stable inp)
         in case generate_nightly_yaml conf_wip_boards_nightly (manual_nightly inp) of
              Inl err \<Rightarrow> Inl err
            | Inr nightly \<Rightarrow>
           (let community = generate_community_yaml csc_tvb_boards_community (manual_community inp)
            in case generate_exposed_map conf_wip_boards_stable csc_tvb_boards_community of
                 Inl err \<Rightarrow> Inl err
               | Inr exposed \<Rightarrow>
                   Inr \<lparr>apps_yaml = apps, stable_yaml = stable, nightly_yaml = nightly,
                        community_yaml = community, exposed_map = exposed\<rparr>)))"


text \<open>The file extension \<^verbatim>\<open>generate_exposed_map\<close> chooses from the extension string of a
  board.\<close>

definition file_ext_of :: "string \<Rightarrow> string" where
  "file_ext_of exts = (if contains_str ''image-output-oowow'' exts then ''.oowow.img.xz'' else ''.img.xz'')"















text \<open>
  An entry is eligible when its branch is in the priority dict of its own record; its
  priority number is the value found there.
\<close>

definition eligible :: "'a board_data_scheme \<Rightarrow> bool" where
  "eligible d = (branch_priority (entry d) (branch d) \<noteq> None)"

definition prio :: "'a board_data_scheme \<Rightarrow> nat" where
  "prio d = (case branch_priority (entry d) (branch d) of Some p \<Rightarrow> p | None \<Rightarrow> 0)"

text \<open>
  \<open>d\<close> occurs in \<open>boards\<close>, is eligible, has a lower priority number than every eligible
  entry of its board before it, and none after it has a lower one: it is the first-seen
  eligible entry of its board with the lowest priority number.
\<close>

definition first_lowest :: "'a board_data_scheme list \<Rightarrow> 'a board_data_scheme \<Rightarrow> bool" where
  "first_lowest boards d =
     (\<exists>pre post. boards = pre @ d # post \<and> eligible d \<and>
        (\<forall>d' \<in> set pre. board d' = board d \<and> eligible d' \<longrightarrow> prio d < prio d') \<and>
        (\<forall>d' \<in> set post. board d' = board d \<and> eligible d' \<longrightarrow> prio d \<le> prio d'))"

text \<open>The entries of one board carry the same \<^verbatim>\<open>KERNEL_TEST_TARGET\<close>.\<close>

definition same_allow_list :: "'a board_data_scheme list \<Rightarrow> bool" where
  "same_allow_list boards =
     (\<forall>d \<in> set boards. \<forall>d' \<in> set boards. board d = board d' \<longrightarrow>
        tlv_KERNEL_TEST_TARGET (entry d) = tlv_KERNEL_TEST_TARGET (entry d'))"

text \<open>
  The invariant of the loop of \<^verbatim>\<open>select_one_branch_per_board\<close> once it has processed
  \<open>done_boards\<close>: the keys of \<^verbatim>\<open>seen_boards\<close> are distinct and are the boards with an eligible
  entry so far, and each holds the first-seen entry of lowest priority number.
\<close>

definition select_inv ::
  "'a board_data_scheme list \<Rightarrow> (string \<times> 'a board_data_scheme) list \<Rightarrow> bool" where
  "select_inv done_boards seen =
     (distinct (map fst seen) \<and>
      (\<forall>k. k \<in> fst ` set seen \<longleftrightarrow> (\<exists>d \<in> set done_boards. board d = k \<and> eligible d)) \<and>
      (\<forall>k d. map_of seen k = Some d \<longrightarrow> board d = k \<and> first_lowest done_boards d))"


section \<open>Example records\<close>

text \<open>An inventory record with the given board, branch, support level, architecture and
  video flag, and nothing else set; used to run the definitions on concrete inputs.\<close>

definition example_entry :: "string \<Rightarrow> string \<Rightarrow> string \<Rightarrow> string \<Rightarrow> bool \<Rightarrow> entry" where
  "example_entry b br level ar video =
     \<lparr>inv_BOARD = Some b, inv_BOARDFAMILY = None, inv_BOOT_SOC = None,
      inv_BOARD_HAS_VIDEO = Some video, inv_BOARD_SUPPORT_LEVEL = Some level,
      tlv_BOARDFAMILY = None, tlv_BOOT_SOC = None, tlv_KERNEL_TEST_TARGET = None,
      vars_BRANCH = Some br, vars_BUILD_DESKTOP = Some ''no'',
      out_ARCH = Some ar, out_BOOT_SOC = None\<rparr>"


text \<open>The entry of \<^verbatim>\<open>board_data\<close> the partitioner builds from such a record, with the given
  extension string.\<close>

definition example_board :: "string \<Rightarrow> string \<Rightarrow> string \<Rightarrow> string \<Rightarrow> bool \<Rightarrow> string \<Rightarrow> board_data" where
  "example_board b br level ar video exts =
     \<lparr>board = b, branch = br, support_level = level, arch = ar,
      entry = example_entry b br level ar video, has_desktop_variant = False,
      extensions = exts, is_fast = is_fast_hardware (example_entry b br level ar video)\<rparr>"


text \<open>The same entry with the given \<^verbatim>\<open>KERNEL_TEST_TARGET\<close> in the top-level variables of
  its record.\<close>

definition with_allow_list :: "string \<Rightarrow> board_data \<Rightarrow> board_data" where
  "with_allow_list ktt d = d\<lparr>entry := (entry d)\<lparr>tlv_KERNEL_TEST_TARGET := Some ktt\<rparr>\<rparr>"


section \<open>Facts about the classifier\<close>

lemma contains_str_sublist: "contains_str needle hay = sublist needle hay"
  by (induction hay) (auto simp: sublist_Cons_right)

lemma lookup2_exact:
  "map_of m (b, br) = Some v \<Longrightarrow> lookup2 m b br = Some v"
proof -
  assume a: "map_of m (b, br) = Some v"
  then have "(b, br) \<in> fst ` set m"
    by (metis map_of_eq_None_iff option.distinct(1))
  moreover from a have "m \<noteq> []" by auto
  ultimately show ?thesis using a by (simp add: lookup2_def)
qed

lemma lookup2_wildcard:
  "map_of m (b, br) = None \<Longrightarrow> lookup2 m b br = map_of m (b, '''')"
proof -
  assume "map_of m (b, br) = None"
  then have a: "(b, br) \<notin> fst ` set m"
    by (simp add: map_of_eq_None_iff)
  show ?thesis
  proof (cases "(b, []) \<in> fst ` set m")
    case True
    then have "m \<noteq> []" by auto
    with a True show ?thesis by (simp add: lookup2_def)
  next
    case False
    then have "map_of m (b, []) = None"
      by (simp add: map_of_eq_None_iff)
    with a False show ?thesis by (simp add: lookup2_def)
  qed
qed


text \<open>
  C2 (headless precedence). A record whose \<^verbatim>\<open>BOARD_HAS_VIDEO\<close> is false is classified
  \<open>Headless\<close> (Python's \<^verbatim>\<open>None\<close>), whatever its board, architecture, family and SoC
  fields are.
\<close>

theorem headless_precedence:
  "inv_BOARD_HAS_VIDEO e = Some False \<Longrightarrow> is_fast_hardware e = Headless"
  by (simp add: is_fast_hardware_def get_or_def Let_def)

theorem headless_precedence_witness:
  "is_fast_hardware
     \<lparr>inv_BOARD = Some ''orangepizero2'', inv_BOARDFAMILY = Some ''sun50iw9'',
      inv_BOOT_SOC = Some ''rk3399'', inv_BOARD_HAS_VIDEO = Some False,
      inv_BOARD_SUPPORT_LEVEL = Some ''conf'', tlv_BOARDFAMILY = None, tlv_BOOT_SOC = None,
      tlv_KERNEL_TEST_TARGET = None, vars_BRANCH = Some ''current'',
      vars_BUILD_DESKTOP = Some ''no'', out_ARCH = Some ''arm64'', out_BOOT_SOC = None\<rparr>
   = Headless"
  by (rule headless_precedence) simp


text \<open>
  C1 (LoongArch reference board), as the code has it: the board \<^verbatim>\<open>uefi-loong64\<close> is
  classified \<open>Loongarch\<close> whatever its architecture, family and SoC fields are,
  provided \<^verbatim>\<open>BOARD_HAS_VIDEO\<close> is true. The headless test runs first.
\<close>

theorem loongarch_reference_board:
  "inv_BOARD e = Some ''uefi-loong64'' \<Longrightarrow> inv_BOARD_HAS_VIDEO e = Some True \<Longrightarrow>
   is_fast_hardware e = Loongarch"
  by (simp add: is_fast_hardware_def get_or_def Let_def)

theorem loongarch_reference_board_witness:
  "is_fast_hardware
     \<lparr>inv_BOARD = Some ''uefi-loong64'', inv_BOARDFAMILY = Some ''sun50iw9'',
      inv_BOOT_SOC = Some ''rk3399'', inv_BOARD_HAS_VIDEO = Some True,
      inv_BOARD_SUPPORT_LEVEL = Some ''conf'', tlv_BOARDFAMILY = None, tlv_BOOT_SOC = None,
      tlv_KERNEL_TEST_TARGET = None, vars_BRANCH = Some ''current'',
      vars_BUILD_DESKTOP = Some ''no'', out_ARCH = Some ''armhf'', out_BOOT_SOC = None\<rparr>
   = Loongarch"
  by (rule loongarch_reference_board) simp_all

text \<open>
  C1 as stated fails: the reference board with \<^verbatim>\<open>BOARD_HAS_VIDEO = false\<close> is headless.
\<close>

theorem loongarch_reference_board_headless:
  "is_fast_hardware
     \<lparr>inv_BOARD = Some ''uefi-loong64'', inv_BOARDFAMILY = None,
      inv_BOOT_SOC = None, inv_BOARD_HAS_VIDEO = Some False,
      inv_BOARD_SUPPORT_LEVEL = Some ''conf'', tlv_BOARDFAMILY = None, tlv_BOOT_SOC = None,
      tlv_KERNEL_TEST_TARGET = None, vars_BRANCH = Some ''current'',
      vars_BUILD_DESKTOP = Some ''no'', out_ARCH = Some ''loongarch64'', out_BOOT_SOC = None\<rparr>
   = Headless"
  by (simp add: is_fast_hardware_def get_or_def Let_def)

lemmas eval_defs =
  example_entry_def is_fast_hardware_def get_or_def soc_extension_list_def get_soc_extensions_def
  lookup2_def add_manual_def strip_def strip_chars_def rstrip_chars_def is_space_def
  split_str.simps

lemma soc_extension_list_lookup_cong:
  "lookup2 m (get_or '''' (inv_BOARD e)) (get_or '''' (vars_BRANCH e)) =
   lookup2 m' (get_or '''' (inv_BOARD e)) (get_or '''' (vars_BRANCH e)) \<Longrightarrow>
   lookup2 rm (get_or '''' (inv_BOARD e)) (get_or '''' (vars_BRANCH e)) =
   lookup2 rm' (get_or '''' (inv_BOARD e)) (get_or '''' (vars_BRANCH e)) \<Longrightarrow>
   soc_extension_list e m rm = soc_extension_list e m' rm'"
  by (simp add: soc_extension_list_def)

lemma get_soc_extensions_lookup_cong:
  "lookup2 m (get_or '''' (inv_BOARD e)) (get_or '''' (vars_BRANCH e)) =
   lookup2 m' (get_or '''' (inv_BOARD e)) (get_or '''' (vars_BRANCH e)) \<Longrightarrow>
   lookup2 rm (get_or '''' (inv_BOARD e)) (get_or '''' (vars_BRANCH e)) =
   lookup2 rm' (get_or '''' (inv_BOARD e)) (get_or '''' (vars_BRANCH e)) \<Longrightarrow>
   get_soc_extensions e m rm = get_soc_extensions e m' rm'"
  by (simp add: get_soc_extensions_def soc_extension_list_lookup_cong [of m e m' rm rm'])

lemma lookup2_Nil [simp]: "lookup2 [] b br = None"
  by (simp add: lookup2_def)

lemma soc_extension_list_removed:
  "soc_extension_list e m rm =
     (case lookup2 rm (get_or '''' (inv_BOARD e)) (get_or '''' (vars_BRANCH e)) of
        None \<Rightarrow> soc_extension_list e m []
      | Some R \<Rightarrow> filter (\<lambda>ext. ext \<notin> R) (soc_extension_list e m []))"
  by (auto simp: soc_extension_list_def Let_def split: option.splits)


lemma add_manual_empty: "add_manual '''' xs = xs"
  by (simp add: add_manual_def split_str.simps strip_def strip_chars_def rstrip_chars_def)

lemma soc_extension_list_merged:
  "soc_extension_list e m [] =
     (case lookup2 m (get_or '''' (inv_BOARD e)) (get_or '''' (vars_BRANCH e)) of
        None \<Rightarrow> (if is_fast_hardware e = Fast then [''v4l2loopback-dkms'', ''mesa-vpu''] else [])
      | Some v \<Rightarrow> add_manual v
          (if is_fast_hardware e = Fast then [''v4l2loopback-dkms'', ''mesa-vpu''] else []))"
  by (simp add: soc_extension_list_def Let_def add_manual_empty split: option.splits)

lemma add_manual_prefix: "prefix xs (add_manual v xs)"
proof -
  have "prefix xs (fold (\<lambda>ext acc. let ext = strip ext
                      in if ext \<noteq> '''' \<and> ext \<notin> set acc then acc @ [ext] else acc) ws xs)" for ws
  proof (induction ws arbitrary: xs)
    case Nil
    show ?case by simp
  next
    case (Cons w ws)
    have "prefix xs (if strip w \<noteq> '''' \<and> strip w \<notin> set xs then xs @ [strip w] else xs)"
      by simp
    also have "prefix \<dots> (fold (\<lambda>ext acc. let ext = strip ext
                      in if ext \<noteq> '''' \<and> ext \<notin> set acc then acc @ [ext] else acc) ws
                  (if strip w \<noteq> '''' \<and> strip w \<notin> set xs then xs @ [strip w] else xs))"
      by (rule Cons.IH)
    finally show ?case by (simp add: Let_def)
  qed
  then show ?thesis by (simp add: add_manual_def)
qed

lemma add_manual_set:
  "set (add_manual v xs) = set xs \<union> {n \<in> strip ` set (split_str '','' v). n \<noteq> ''''}"
proof -
  have "set (fold (\<lambda>ext acc. let ext = strip ext
                      in if ext \<noteq> '''' \<and> ext \<notin> set acc then acc @ [ext] else acc) ws xs) =
        set xs \<union> {n \<in> strip ` set ws. n \<noteq> ''''}" for ws
    by (induction ws arbitrary: xs) (auto simp: Let_def)
  then show ?thesis by (simp add: add_manual_def)
qed

lemma add_manual_distinct: "distinct xs \<Longrightarrow> distinct (add_manual v xs)"
proof -
  have "distinct xs \<Longrightarrow> distinct (fold (\<lambda>ext acc. let ext = strip ext
                      in if ext \<noteq> '''' \<and> ext \<notin> set acc then acc @ [ext] else acc) ws xs)" for ws
    by (induction ws arbitrary: xs) (auto simp: Let_def)
  then show "distinct xs \<Longrightarrow> distinct (add_manual v xs)" by (simp add: add_manual_def)
qed

lemma get_soc_extensions_join:
  "get_soc_extensions e m rm = join_str '','' (soc_extension_list e m rm)"
  by (simp add: get_soc_extensions_def Let_def)


text \<open>
  C6 (extension merge precedence). With \<open>b\<close>, \<open>br\<close> the board and branch of the record and
  \<open>auto_ext\<close> the automatic extensions of a fast board:
  \<^item> if the additions table has the exact key \<open>(b, br)\<close>, the merged list is \<open>auto_ext\<close> with
    the names of that entry merged in; if it has no exact key but the wildcard key
    \<open>(b, '')\<close>, the names of the wildcard entry are merged in; with neither, the merged
    list is \<open>auto_ext\<close>;
  \<^item> merging keeps the list it starts from as a prefix, adds exactly the stripped, non-empty
    names of the entry, and adds none twice;
  \<^item> if the removals table has the exact key, the result is the merged list without the
    names of that set; if it has no exact key but the wildcard key, without the names of
    the wildcard set; with neither, the merged list;
  \<^item> the returned string is the list joined with commas;
  \<^item> hence any two additions tables with the same exact entry give the same result,
    whatever their wildcard entries are, and without an exact entry the result depends on
    the table through the wildcard entry only; the same holds for the removals table;
  \<^item> the list after removal is a subsequence of the merged list: the names left keep
    their order;
  \<^item> adding to the removal set a name that is not in the merged list changes nothing.
\<close>

theorem extension_merge_precedence:
  fixes e :: entry
  defines "b \<equiv> get_or '''' (inv_BOARD e)" and "br \<equiv> get_or '''' (vars_BRANCH e)"
    and "auto_ext \<equiv> (if is_fast_hardware e = Fast then [''v4l2loopback-dkms'', ''mesa-vpu''] else [])"
  shows
  "(\<forall>v. map_of m (b, br) = Some v \<longrightarrow> soc_extension_list e m [] = add_manual v auto_ext) \<and>
   (\<forall>v. map_of m (b, br) = None \<and> map_of m (b, '''') = Some v \<longrightarrow>
        soc_extension_list e m [] = add_manual v auto_ext) \<and>
   (map_of m (b, br) = None \<and> map_of m (b, '''') = None \<longrightarrow>
        soc_extension_list e m [] = auto_ext) \<and>
   (\<forall>v xs. prefix xs (add_manual v xs) \<and>
        set (add_manual v xs) = set xs \<union> {n \<in> strip ` set (split_str '','' v). n \<noteq> ''''} \<and>
        (distinct xs \<longrightarrow> distinct (add_manual v xs))) \<and>
   (\<forall>R. map_of rm (b, br) = Some R \<longrightarrow>
        soc_extension_list e m rm = filter (\<lambda>ext. ext \<notin> R) (soc_extension_list e m [])) \<and>
   (\<forall>R. map_of rm (b, br) = None \<and> map_of rm (b, '''') = Some R \<longrightarrow>
        soc_extension_list e m rm = filter (\<lambda>ext. ext \<notin> R) (soc_extension_list e m [])) \<and>
   (map_of rm (b, br) = None \<and> map_of rm (b, '''') = None \<longrightarrow>
        soc_extension_list e m rm = soc_extension_list e m []) \<and>
   get_soc_extensions e m rm = join_str '','' (soc_extension_list e m rm) \<and>
   (\<forall>v. map_of m (b, br) = Some v \<and> map_of m' (b, br) = Some v \<longrightarrow>
        get_soc_extensions e m rm = get_soc_extensions e m' rm) \<and>
   (map_of m (b, br) = None \<and> map_of m' (b, br) = None \<and>
    map_of m (b, '''') = map_of m' (b, '''') \<longrightarrow>
        get_soc_extensions e m rm = get_soc_extensions e m' rm) \<and>
   (\<forall>R. map_of rm (b, br) = Some R \<and> map_of rm' (b, br) = Some R \<longrightarrow>
        get_soc_extensions e m rm = get_soc_extensions e m rm') \<and>
   (map_of rm (b, br) = None \<and> map_of rm' (b, br) = None \<and>
    map_of rm (b, '''') = map_of rm' (b, '''') \<longrightarrow>
        get_soc_extensions e m rm = get_soc_extensions e m rm') \<and>
   subseq (soc_extension_list e m rm) (soc_extension_list e m []) \<and>
   (\<forall>R n. lookup2 rm b br = Some R \<and> lookup2 rm' b br = Some (insert n R) \<and>
          n \<notin> set (soc_extension_list e m []) \<longrightarrow>
        soc_extension_list e m rm' = soc_extension_list e m rm)"
proof (intro conjI allI impI)
  fix v assume "map_of m (b, br) = Some v"
  then have "lookup2 m b br = Some v" by (rule lookup2_exact)
  then show "soc_extension_list e m [] = add_manual v auto_ext"
    unfolding b_def br_def auto_ext_def by (simp add: soc_extension_list_merged)
next
  fix v assume "map_of m (b, br) = None \<and> map_of m (b, '''') = Some v"
  then have "lookup2 m b br = Some v" by (simp add: lookup2_wildcard)
  then show "soc_extension_list e m [] = add_manual v auto_ext"
    unfolding b_def br_def auto_ext_def by (simp add: soc_extension_list_merged)
next
  assume "map_of m (b, br) = None \<and> map_of m (b, '''') = None"
  then have "lookup2 m b br = None" by (simp add: lookup2_wildcard)
  then show "soc_extension_list e m [] = auto_ext"
    unfolding b_def br_def auto_ext_def by (simp add: soc_extension_list_merged)
next
  fix v :: string and xs show "prefix xs (add_manual v xs)" by (rule add_manual_prefix)
next
  fix v :: string and xs
  show "set (add_manual v xs) = set xs \<union> {n \<in> strip ` set (split_str '','' v). n \<noteq> ''''}"
    by (rule add_manual_set)
next
  fix v :: string and xs :: "string list"
  assume "distinct xs" then show "distinct (add_manual v xs)" by (rule add_manual_distinct)
next
  fix R assume "map_of rm (b, br) = Some R"
  then have "lookup2 rm b br = Some R" by (rule lookup2_exact)
  then show "soc_extension_list e m rm = filter (\<lambda>ext. ext \<notin> R) (soc_extension_list e m [])"
    unfolding b_def br_def by (simp add: soc_extension_list_removed [of e m rm])
next
  fix R assume "map_of rm (b, br) = None \<and> map_of rm (b, '''') = Some R"
  then have "lookup2 rm b br = Some R" by (simp add: lookup2_wildcard)
  then show "soc_extension_list e m rm = filter (\<lambda>ext. ext \<notin> R) (soc_extension_list e m [])"
    unfolding b_def br_def by (simp add: soc_extension_list_removed [of e m rm])
next
  assume "map_of rm (b, br) = None \<and> map_of rm (b, '''') = None"
  then have "lookup2 rm b br = None" by (simp add: lookup2_wildcard)
  then show "soc_extension_list e m rm = soc_extension_list e m []"
    unfolding b_def br_def by (simp add: soc_extension_list_removed [of e m rm])
next
  show "get_soc_extensions e m rm = join_str '','' (soc_extension_list e m rm)"
    by (rule get_soc_extensions_join)
next
  fix v assume "map_of m (b, br) = Some v \<and> map_of m' (b, br) = Some v"
  then have "lookup2 m b br = lookup2 m' b br"
    by (simp add: lookup2_exact)
  then show "get_soc_extensions e m rm = get_soc_extensions e m' rm"
    unfolding b_def br_def by (rule get_soc_extensions_lookup_cong) simp
next
  assume "map_of m (b, br) = None \<and> map_of m' (b, br) = None \<and>
          map_of m (b, '''') = map_of m' (b, '''')"
  then have "lookup2 m b br = lookup2 m' b br"
    by (simp add: lookup2_wildcard)
  then show "get_soc_extensions e m rm = get_soc_extensions e m' rm"
    unfolding b_def br_def by (rule get_soc_extensions_lookup_cong) simp
next
  fix R assume "map_of rm (b, br) = Some R \<and> map_of rm' (b, br) = Some R"
  then have "lookup2 rm b br = lookup2 rm' b br"
    by (simp add: lookup2_exact)
  then show "get_soc_extensions e m rm = get_soc_extensions e m rm'"
    unfolding b_def br_def by (intro get_soc_extensions_lookup_cong) simp_all
next
  assume "map_of rm (b, br) = None \<and> map_of rm' (b, br) = None \<and>
          map_of rm (b, '''') = map_of rm' (b, '''')"
  then have "lookup2 rm b br = lookup2 rm' b br"
    by (simp add: lookup2_wildcard)
  then show "get_soc_extensions e m rm = get_soc_extensions e m rm'"
    unfolding b_def br_def by (intro get_soc_extensions_lookup_cong) simp_all
next
  show "subseq (soc_extension_list e m rm) (soc_extension_list e m [])"
    by (subst soc_extension_list_removed) (simp split: option.splits)
next
  fix R n
  assume a: "lookup2 rm b br = Some R \<and> lookup2 rm' b br = Some (insert n R) \<and>
             n \<notin> set (soc_extension_list e m [])"
  then have "filter (\<lambda>ext. ext \<notin> insert n R) (soc_extension_list e m []) =
             filter (\<lambda>ext. ext \<notin> R) (soc_extension_list e m [])"
    by (intro filter_cong) auto
  with a show "soc_extension_list e m rm' = soc_extension_list e m rm"
    by (simp add: soc_extension_list_removed [of e m rm] soc_extension_list_removed [of e m rm']
          b_def br_def)
qed

theorem extension_merge_precedence_witness:
  "soc_extension_list (example_entry ''rock5b'' ''current'' ''conf'' ''arm64'' True)
     [((''rock5b'', ''''), ''zzz''), ((''rock5b'', ''current''), ''a,b'')] [] =
     [''v4l2loopback-dkms'', ''mesa-vpu'', ''a'', ''b''] \<and>
   soc_extension_list (example_entry ''rock5b'' ''current'' ''conf'' ''arm64'' True)
     [((''rock5b'', ''edge''), ''a,b''), ((''rock5b'', ''''), '' zzz ,mesa-vpu'')] [] =
     [''v4l2loopback-dkms'', ''mesa-vpu'', ''zzz''] \<and>
   soc_extension_list (example_entry ''rock5b'' ''current'' ''conf'' ''arm64'' True)
     [((''rock5b'', ''current''), ''a,b'')]
     [((''rock5b'', ''''), {''v4l2loopback-dkms''}), ((''rock5b'', ''current''), {''mesa-vpu''})] =
     [''v4l2loopback-dkms'', ''a'', ''b''] \<and>
   soc_extension_list (example_entry ''rock5b'' ''current'' ''conf'' ''arm64'' True)
     [((''rock5b'', ''current''), ''a,b'')]
     [((''rock5b'', ''edge''), {''a''}), ((''rock5b'', ''''), {''mesa-vpu''})] =
     [''v4l2loopback-dkms'', ''a'', ''b''] \<and>
   get_soc_extensions (example_entry ''rock5b'' ''current'' ''conf'' ''arm64'' True)
     [((''rock5b'', ''current''), ''a,b''), ((''rock5b'', ''''), ''zzz'')] [] =
   get_soc_extensions (example_entry ''rock5b'' ''current'' ''conf'' ''arm64'' True)
     [((''rock5b'', ''current''), ''a,b'')] [] \<and>
   get_soc_extensions (example_entry ''rock5b'' ''current'' ''conf'' ''arm64'' True)
     [((''rock5b'', ''current''), ''a,b'')] [] = ''v4l2loopback-dkms,mesa-vpu,a,b'' \<and>
   soc_extension_list (example_entry ''rock5b'' ''current'' ''conf'' ''arm64'' True)
     [((''rock5b'', ''current''), ''a,b'')] [((''rock5b'', ''''), {''nothere'', ''mesa-vpu''})] =
   soc_extension_list (example_entry ''rock5b'' ''current'' ''conf'' ''arm64'' True)
     [((''rock5b'', ''current''), ''a,b'')] [((''rock5b'', ''''), {''mesa-vpu''})]"
proof -
  let ?e = "example_entry ''rock5b'' ''current'' ''conf'' ''arm64'' True"
  let ?m = "[((''rock5b'', ''current''), ''a,b''), ((''rock5b'', ''''), ''zzz'')]"
  let ?m' = "[((''rock5b'', ''current''), ''a,b'')]"
  let ?m1 = "[((''rock5b'', ''''), ''zzz''), ((''rock5b'', ''current''), ''a,b'')]"
  let ?m2 = "[((''rock5b'', ''edge''), ''a,b''), ((''rock5b'', ''''), '' zzz ,mesa-vpu'')]"
  let ?rm = "[((''rock5b'', ''''), {''mesa-vpu''})]"
  let ?rm' = "[((''rock5b'', ''''), {''nothere'', ''mesa-vpu''})]"
  let ?rm1 = "[((''rock5b'', ''''), {''v4l2loopback-dkms''}), ((''rock5b'', ''current''), {''mesa-vpu''})]"
  let ?rm2 = "[((''rock5b'', ''edge''), {''a''}), ((''rock5b'', ''''), {''mesa-vpu''})]"
  have b: "get_or '''' (inv_BOARD ?e) = ''rock5b''" "get_or '''' (vars_BRANCH ?e) = ''current''"
    by (simp_all add: example_entry_def get_or_def)
  have f: "is_fast_hardware ?e = Fast"
    by (simp add: example_entry_def is_fast_hardware_def get_or_def)
  have a1: "add_manual ''a,b'' [''v4l2loopback-dkms'', ''mesa-vpu''] =
            [''v4l2loopback-dkms'', ''mesa-vpu'', ''a'', ''b'']"
    by (simp add: eval_defs)
  have a2: "add_manual '' zzz ,mesa-vpu'' [''v4l2loopback-dkms'', ''mesa-vpu''] =
            [''v4l2loopback-dkms'', ''mesa-vpu'', ''zzz'']"
    by (simp add: eval_defs)
  have 1: "soc_extension_list ?e ?m1 [] = [''v4l2loopback-dkms'', ''mesa-vpu'', ''a'', ''b'']"
    using extension_merge_precedence [of ?m1 ?e "[]" ?m1 "[]"] by (simp add: b f a1)
  have 2: "soc_extension_list ?e ?m2 [] = [''v4l2loopback-dkms'', ''mesa-vpu'', ''zzz'']"
    using extension_merge_precedence [of ?m2 ?e "[]" ?m2 "[]"] by (simp add: b f a2)
  have 0: "soc_extension_list ?e ?m' [] = [''v4l2loopback-dkms'', ''mesa-vpu'', ''a'', ''b'']"
    using extension_merge_precedence [of ?m' ?e "[]" ?m' "[]"] by (simp add: b f a1)
  have 3: "soc_extension_list ?e ?m' ?rm1 = [''v4l2loopback-dkms'', ''a'', ''b'']"
    using extension_merge_precedence [of ?m' ?e ?rm1 ?m' ?rm1] by (simp add: b 0)
  have 4: "soc_extension_list ?e ?m' ?rm2 = [''v4l2loopback-dkms'', ''a'', ''b'']"
    using extension_merge_precedence [of ?m' ?e ?rm2 ?m' ?rm2] by (simp add: b 0)
  have 5: "get_soc_extensions ?e ?m [] = get_soc_extensions ?e ?m' []"
  proof -
    have "map_of ?m (''rock5b'', ''current'') = Some ''a,b'' \<and>
          map_of ?m' (''rock5b'', ''current'') = Some ''a,b''"
      by simp
    with extension_merge_precedence [of ?m ?e "[]" ?m' "[]"] show ?thesis
      unfolding b by blast
  qed
  have 6: "get_soc_extensions ?e ?m' [] = ''v4l2loopback-dkms,mesa-vpu,a,b''"
    using extension_merge_precedence [of ?m' ?e "[]" ?m' "[]"] by (simp add: 0)
  have 7: "soc_extension_list ?e ?m' ?rm' = soc_extension_list ?e ?m' ?rm"
  proof -
    have "lookup2 ?rm ''rock5b'' ''current'' = Some {''mesa-vpu''} \<and>
          lookup2 ?rm' ''rock5b'' ''current'' = Some (insert ''nothere'' {''mesa-vpu''}) \<and>
          ''nothere'' \<notin> set (soc_extension_list ?e ?m' [])"
      by (simp add: lookup2_def 0)
    with extension_merge_precedence [of ?m' ?e ?rm ?m' ?rm'] show ?thesis
      unfolding b by blast
  qed
  from 1 2 3 4 5 6 7 show ?thesis by blast
qed


text \<open>
  C7 (grammar of the additions table). The docstring gives the format
  \<^verbatim>\<open>BOARD_NAME:branch1:branch2:...:ENABLE_EXTENSIONS="ext1,ext2"\<close>, but the loader passes
  over every line that does not contain \<^verbatim>\<open>::ENABLE_EXTENSIONS=\<close>: a line of the documented
  form with a non-empty branch list and one colon before the key stores nothing.
\<close>

theorem load_extensions_map_single_colon:
  "load_extensions_map (Some [''rock5b:current:vendor:ENABLE_EXTENSIONS=\"v1,v2\"'']) = ([], [])"
  by (simp add: load_extensions_map_def load_extensions_step_def parse_map_line_def
        strip_def strip_chars_def is_space_def)


text \<open>With a second colon before the key the branches are stored, and an empty branch
  list gives the wildcard entry.\<close>

lemma load_extensions_map_double_colon:
  "load_extensions_map (Some [''rock5b:current:vendor::ENABLE_EXTENSIONS=\"v1,v2\"'',
                              ''khadas-vim3::ENABLE_EXTENSIONS=\"image-output-oowow\"'']) =
   ([((''rock5b'', ''current''), ''v1,v2''), ((''rock5b'', ''vendor''), ''v1,v2''),
     ((''khadas-vim3'', ''''), ''image-output-oowow'')], [])"
  by (simp add: load_extensions_map_def load_extensions_step_def parse_map_line_def
        strip_def strip_chars_def rstrip_chars_def is_space_def split_str.simps store_line_def)

lemma parse_map_line_never_raises: "parse_map_line key l \<noteq> Inl e"
  by (simp add: parse_map_line_def Let_def)

lemma malformed_skipped: "malformed key l \<Longrightarrow> parse_map_line key l = Inr None"
  by (auto simp: malformed_def parse_map_line_def Let_def)

lemma load_extensions_step_log: "snd (load_extensions_step l st) = snd st"
  by (auto simp: load_extensions_step_def parse_map_line_never_raises split: sum.splits option.splits)

lemma load_remove_step_log: "snd (load_remove_step l st) = snd st"
  by (auto simp: load_remove_step_def parse_map_line_never_raises Let_def split: sum.splits option.splits)

lemma fold_load_extensions_log: "snd (fold load_extensions_step ls st) = snd st"
  by (induction ls arbitrary: st) (simp_all add: load_extensions_step_log)

lemma fold_load_remove_log: "snd (fold load_remove_step ls st) = snd st"
  by (induction ls arbitrary: st) (simp_all add: load_remove_step_log)


text \<open>
  C8 (malformed lines), as the code has it: a malformed line is passed over and the rest
  of the file is parsed as if the line were not there, for both loaders; the loaders never
  print a warning, since the only \<^verbatim>\<open>print\<close> is in the \<^verbatim>\<open>except\<close> branch and the \<^verbatim>\<open>try\<close>
  block raises nothing.
\<close>

theorem malformed_line_skipped_silently:
  "(malformed ''ENABLE_EXTENSIONS'' l \<longrightarrow>
      load_extensions_map (Some (xs @ l # ys)) = load_extensions_map (Some (xs @ ys))) \<and>
   (malformed ''REMOVE_EXTENSIONS'' l \<longrightarrow>
      load_remove_extensions_map (Some (xs @ l # ys)) = load_remove_extensions_map (Some (xs @ ys))) \<and>
   snd (load_extensions_map f) = [] \<and>
   snd (load_remove_extensions_map f) = []"
proof (intro conjI impI)
  assume "malformed ''ENABLE_EXTENSIONS'' l"
  then have "load_extensions_step l = (\<lambda>st. st)"
    by (intro ext) (simp add: load_extensions_step_def malformed_skipped)
  then show "load_extensions_map (Some (xs @ l # ys)) = load_extensions_map (Some (xs @ ys))"
    by (simp add: load_extensions_map_def)
next
  assume "malformed ''REMOVE_EXTENSIONS'' l"
  then have "load_remove_step l = (\<lambda>st. st)"
    by (intro ext) (simp add: load_remove_step_def malformed_skipped)
  then show "load_remove_extensions_map (Some (xs @ l # ys)) = load_remove_extensions_map (Some (xs @ ys))"
    by (simp add: load_remove_extensions_map_def)
next
  show "snd (load_extensions_map f) = []"
    by (cases f) (simp_all add: load_extensions_map_def fold_load_extensions_log)
next
  show "snd (load_remove_extensions_map f) = []"
    by (cases f) (simp_all add: load_remove_extensions_map_def fold_load_remove_log)
qed


theorem malformed_line_skipped_silently_witness:
  "load_extensions_map
     (Some [''rock5b:current::ENABLE_EXTENSIONS=\"a\"'', ''not a rule'',
            ''nanopi-r6s::ENABLE_EXTENSIONS=\"b\"'']) =
   load_extensions_map
     (Some [''rock5b:current::ENABLE_EXTENSIONS=\"a\"'',
            ''nanopi-r6s::ENABLE_EXTENSIONS=\"b\"'']) \<and>
   load_remove_extensions_map
     (Some [''rock5b:current::REMOVE_EXTENSIONS=\"a\"'', ''not a rule'',
            ''nanopi-r6s::REMOVE_EXTENSIONS=\"b\"'']) =
   load_remove_extensions_map
     (Some [''rock5b:current::REMOVE_EXTENSIONS=\"a\"'',
            ''nanopi-r6s::REMOVE_EXTENSIONS=\"b\"''])"
proof -
  have m: "malformed ''ENABLE_EXTENSIONS'' ''not a rule''" "malformed ''REMOVE_EXTENSIONS'' ''not a rule''"
    by (simp_all add: malformed_def strip_def strip_chars_def is_space_def)
  show ?thesis
    using malformed_line_skipped_silently
            [where l = "''not a rule''" and xs = "[''rock5b:current::ENABLE_EXTENSIONS=\"a\"'']"
               and ys = "[''nanopi-r6s::ENABLE_EXTENSIONS=\"b\"'']"]
          malformed_line_skipped_silently
            [where l = "''not a rule''" and xs = "[''rock5b:current::REMOVE_EXTENSIONS=\"a\"'']"
               and ys = "[''nanopi-r6s::REMOVE_EXTENSIONS=\"b\"'']"] m
    by simp
qed


text \<open>
  C8 as stated fails: a malformed line is skipped with no warning.
\<close>

theorem malformed_line_no_warning:
  "load_extensions_map (Some [''this line is not a rule'']) = ([], [])"
  by (simp add: load_extensions_map_def load_extensions_step_def parse_map_line_def
        strip_def strip_chars_def is_space_def)


lemma pattern_pair_suffix:
  "l \<in> set (pattern_pair d c b r br kind ext) \<Longrightarrow> suffix (kind @ ext) l"
  by (auto simp: pattern_pair_def Let_def suffix_def)

lemma exposed_board_lines_kind:
  "l \<in> set (exposed_board_lines bd) \<Longrightarrow>
   suffix (''minimal'' @ file_ext_of (extensions bd)) l \<or>
   suffix (''xfce_desktop'' @ file_ext_of (extensions bd)) l \<or>
   suffix (''gnome_desktop'' @ file_ext_of (extensions bd)) l"
  unfolding exposed_board_lines_def Let_def file_ext_of_def
  by (auto split: if_splits dest!: pattern_pair_suffix)

lemma oowow_not_suffix_of_kind: "\<not> suffix ''.oowow.img.xz'' (''minimal'' @ ''.img.xz'')"
  "\<not> suffix ''.oowow.img.xz'' (''xfce_desktop'' @ ''.img.xz'')"
  "\<not> suffix ''.oowow.img.xz'' (''gnome_desktop'' @ ''.img.xz'')"
  by (simp_all add: suffix_to_prefix)

lemma kind_not_suffix_of_oowow: "\<not> suffix (''minimal'' @ ''.img.xz'') ''.oowow.img.xz''"
  "\<not> suffix (''xfce_desktop'' @ ''.img.xz'') ''.oowow.img.xz''"
  "\<not> suffix (''gnome_desktop'' @ ''.img.xz'') ''.oowow.img.xz''"
  by (simp_all add: suffix_to_prefix)

lemma not_oowow_suffix:
  assumes "suffix (kind @ ''.img.xz'') l"
    and "kind = ''minimal'' \<or> kind = ''xfce_desktop'' \<or> kind = ''gnome_desktop''"
  shows "\<not> suffix ''.oowow.img.xz'' l"
proof
  assume a: "suffix ''.oowow.img.xz'' l"
  from a assms(1) have "suffix ''.oowow.img.xz'' (kind @ ''.img.xz'') \<or>
                      suffix (kind @ ''.img.xz'') ''.oowow.img.xz''"
    by (rule suffix_same_cases)
  with assms(2) oowow_not_suffix_of_kind kind_not_suffix_of_oowow show False
    by blast
qed

lemma suffix_of_suffix_append: "suffix (a @ b) l \<Longrightarrow> suffix b l"
  by (auto simp: suffix_def)

text \<open>
  C10 (suffix of the exposure patterns). Every line the loop emits for a board ends with
  \<^verbatim>\<open>.oowow.img.xz\<close> exactly when the board's extension string contains the substring
  \<^verbatim>\<open>image-output-oowow\<close>, and ends with \<^verbatim>\<open>.img.xz\<close> in either case; the lines of the table
  are the lines of its boards, so the choice is the same for all lines of a board.
\<close>

theorem exposed_suffix:
  "(\<forall>bd \<in> set selected. \<forall>l \<in> set (exposed_board_lines bd).
      (suffix ''.oowow.img.xz'' l \<longleftrightarrow> contains_str ''image-output-oowow'' (extensions bd)) \<and>
      suffix ''.img.xz'' l) \<and>
   set (exposed_lines selected) = (\<Union>bd \<in> set selected. set (exposed_board_lines bd))"
proof (intro conjI ballI)
  fix bd l assume "l \<in> set (exposed_board_lines bd)"
  then obtain kind where k: "kind = ''minimal'' \<or> kind = ''xfce_desktop'' \<or> kind = ''gnome_desktop''"
    and l: "suffix (kind @ file_ext_of (extensions bd)) l"
    using exposed_board_lines_kind by blast
  show "suffix ''.oowow.img.xz'' l \<longleftrightarrow> contains_str ''image-output-oowow'' (extensions bd)"
  proof (cases "contains_str ''image-output-oowow'' (extensions bd)")
    case True
    with l show ?thesis by (auto simp: file_ext_of_def dest: suffix_of_suffix_append)
  next
    case False
    with l k show ?thesis by (auto simp: file_ext_of_def dest: not_oowow_suffix)
  qed
  have "suffix (file_ext_of (extensions bd)) l"
    using l by (rule suffix_of_suffix_append)
  moreover have "''.oowow.img.xz'' = ''.oowow'' @ ''.img.xz''" by simp
  ultimately show "suffix ''.img.xz'' l"
    by (cases "contains_str ''image-output-oowow'' (extensions bd)")
       (auto simp: file_ext_of_def simp del: append.simps dest: suffix_of_suffix_append)
next
  show "set (exposed_lines selected) = (\<Union>bd \<in> set selected. set (exposed_board_lines bd))"
    by (simp add: exposed_lines_def)
qed

theorem exposed_suffix_witness:
  "exposed_board_lines
     (tag_board ''stable'' (example_board ''khadas-vim3'' ''current'' ''conf'' ''arm64'' True
                              ''v4l2loopback-dkms,image-output-oowow'')) =
   [''khadas-vim3/archive/Armbian_[0-9].*Khadas-vim3_trixie_current_[0-9]*.[0-9]*.[0-9]*_minimal.oowow.img.xz'',
    ''Armbian_[0-9].*Khadas-vim3_trixie_current_[0-9]*.[0-9]*.[0-9]*_minimal.oowow.img.xz'',
    ''khadas-vim3/archive/Armbian_[0-9].*Khadas-vim3_noble_current_[0-9]*.[0-9]*.[0-9]*_gnome_desktop.oowow.img.xz'',
    ''Armbian_[0-9].*Khadas-vim3_noble_current_[0-9]*.[0-9]*.[0-9]*_gnome_desktop.oowow.img.xz''] \<and>
   suffix ''.oowow.img.xz''
     ''Armbian_[0-9].*Khadas-vim3_noble_current_[0-9]*.[0-9]*.[0-9]*_gnome_desktop.oowow.img.xz''"
proof -
  let ?bd = "tag_board ''stable'' (example_board ''khadas-vim3'' ''current'' ''conf'' ''arm64'' True
                              ''v4l2loopback-dkms,image-output-oowow'')"
  let ?l = "''Armbian_[0-9].*Khadas-vim3_noble_current_[0-9]*.[0-9]*.[0-9]*_gnome_desktop.oowow.img.xz''"
  have 1: "exposed_board_lines ?bd =
   [''khadas-vim3/archive/Armbian_[0-9].*Khadas-vim3_trixie_current_[0-9]*.[0-9]*.[0-9]*_minimal.oowow.img.xz'',
    ''Armbian_[0-9].*Khadas-vim3_trixie_current_[0-9]*.[0-9]*.[0-9]*_minimal.oowow.img.xz'',
    ''khadas-vim3/archive/Armbian_[0-9].*Khadas-vim3_noble_current_[0-9]*.[0-9]*.[0-9]*_gnome_desktop.oowow.img.xz'',
    ?l]"
    by code_simp
  have 2: "?l \<in> set (exposed_board_lines ?bd)"
    unfolding 1 by simp
  have 3: "contains_str ''image-output-oowow'' (extensions ?bd)"
    by code_simp
  have "?bd \<in> set [?bd]" by simp
  from exposed_suffix [of "[?bd]", THEN conjunct1, rule_format, OF this 2] 3
  have "suffix ''.oowow.img.xz'' ?l" by blast
  with 1 show ?thesis by blast
qed
































































































lemma list_header_eq: "list_header n = list_header m \<longleftrightarrow> n = m"
proof
  assume "list_header n = list_header m"
  then have e: "n @ '': &'' @ n @ nl = m @ '': &'' @ m @ nl"
    by (simp add: list_header_def)
  have "length (n @ '': &'' @ n @ nl) = length (m @ '': &'' @ m @ nl)"
    using e by (rule arg_cong)
  then have "length n = length m" by simp
  with e show "n = m" by simp
qed simp

lemma item_ref_eq: "item_ref n = item_ref m \<longleftrightarrow> n = m"
  by (simp add: item_ref_def)

lemma in_set_if: "x \<in> set (if c then A else []) \<longleftrightarrow> c \<and> x \<in> set A"
  by simp

lemma in_set_list_ref: "x \<in> set (list_ref n b) \<longleftrightarrow> b \<noteq> [] \<and> x = item_ref n"
  by (auto simp: list_ref_def)


lemmas member_simps =
  in_set_if in_set_list_ref item_ref_eq list_header_eq set_append Un_iff list.set insert_iff
  empty_iff

lemma literal_header: "''  '' @ n @ '': &'' @ n @ ''\<newline>'' = list_header n"
  by (simp add: list_header_def nl_def)

lemma literal_ref: "''      - *'' @ n @ ''\<newline>'' = item_ref n"
  by (simp add: item_ref_def nl_def)





























lemma branch_priority_cong:
  "tlv_KERNEL_TEST_TARGET e = tlv_KERNEL_TEST_TARGET e' \<Longrightarrow> branch_priority e = branch_priority e'"
  by (simp add: branch_priority_def)

lemma first_lowest_eligible: "first_lowest xs d \<Longrightarrow> eligible d"
  by (auto simp: first_lowest_def)

lemma first_lowest_mem: "first_lowest xs d \<Longrightarrow> d \<in> set xs"
  by (auto simp: first_lowest_def)

lemma first_lowest_le:
  "first_lowest xs d \<Longrightarrow> d' \<in> set xs \<Longrightarrow> board d' = board d \<Longrightarrow> eligible d' \<Longrightarrow> prio d \<le> prio d'"
  unfolding first_lowest_def by (fastforce simp: less_imp_le)

lemma first_lowest_snoc_other:
  assumes "first_lowest xs d" and "board x = board d \<and> eligible x \<longrightarrow> prio d \<le> prio x"
  shows "first_lowest (xs @ [x]) d"
proof -
  from assms(1) obtain pre post where p: "xs = pre @ d # post" "eligible d"
    "\<forall>d' \<in> set pre. board d' = board d \<and> eligible d' \<longrightarrow> prio d < prio d'"
    "\<forall>d' \<in> set post. board d' = board d \<and> eligible d' \<longrightarrow> prio d \<le> prio d'"
    unfolding first_lowest_def by blast
  have "xs @ [x] = pre @ d # (post @ [x])" using p(1) by simp
  moreover have "\<forall>d' \<in> set (post @ [x]). board d' = board d \<and> eligible d' \<longrightarrow> prio d \<le> prio d'"
    using p(4) assms(2) by auto
  ultimately show ?thesis
    unfolding first_lowest_def using p(2,3) by blast
qed

lemma first_lowest_snoc_new:
  assumes "eligible x" and "\<forall>d' \<in> set xs. board d' = board x \<and> eligible d' \<longrightarrow> prio x < prio d'"
  shows "first_lowest (xs @ [x]) x"
  unfolding first_lowest_def
  by (rule exI [of _ xs], rule exI [of _ "[]"]) (use assms in simp)

lemma map_of_Some_key: "map_of xs k = Some v \<Longrightarrow> k \<in> fst ` set xs"
  by (auto dest!: map_of_SomeD intro: rev_image_eqI)

lemma first_lowest_board_seen:
  assumes "select_inv xs seen" and "d \<in> set xs" and "eligible d"
  shows "board d \<in> fst ` set seen"
  using assms unfolding select_inv_def by blast

lemma same_allow_list_priority:
  "same_allow_list xs \<Longrightarrow> d \<in> set xs \<Longrightarrow> d' \<in> set xs \<Longrightarrow> board d = board d' \<Longrightarrow>
   branch_priority (entry d) = branch_priority (entry d')"
  unfolding same_allow_list_def by (blast intro: branch_priority_cong)

lemma same_allow_list_subset:
  "same_allow_list xs \<Longrightarrow> set ys \<subseteq> set xs \<Longrightarrow> same_allow_list ys"
  unfolding same_allow_list_def by blast

lemma select_step_inv:
  assumes inv: "select_inv xs seen" and same: "same_allow_list (xs @ [x])"
  shows "\<exists>seen'. select_step x seen = Inr seen' \<and> select_inv (xs @ [x]) seen'"
proof -
  from inv have dist: "distinct (map fst seen)"
    and keys: "\<And>k. k \<in> fst ` set seen \<longleftrightarrow> (\<exists>d \<in> set xs. board d = k \<and> eligible d)"
    and vals: "\<And>k d. map_of seen k = Some d \<Longrightarrow> board d = k \<and> first_lowest xs d"
    unfolding select_inv_def by blast+
  show ?thesis
  proof (cases "branch_priority (entry x) (branch x)")
    case None
    then have nel: "\<not> eligible x" by (simp add: eligible_def)
    have step: "select_step x seen = Inr seen"
      using None by (simp add: select_step_def)
    have "select_inv (xs @ [x]) seen"
      unfolding select_inv_def
    proof (intro conjI allI impI)
      show "distinct (map fst seen)" by (rule dist)
    next
      fix k show "k \<in> fst ` set seen \<longleftrightarrow> (\<exists>d \<in> set (xs @ [x]). board d = k \<and> eligible d)"
        using keys [of k] nel by auto
    next
      fix k d assume "map_of seen k = Some d"
      then show "board d = k" using vals by blast
    next
      fix k d assume "map_of seen k = Some d"
      then have "first_lowest xs d" using vals by blast
      then show "first_lowest (xs @ [x]) d"
        by (rule first_lowest_snoc_other) (use nel in simp)
    qed
    with step show ?thesis by blast
  next
    case (Some p)
    then have el: "eligible x" and px: "prio x = p"
      by (simp_all add: eligible_def prio_def)
    show ?thesis
    proof (cases "map_of seen (board x)")
      case None
      then have notin: "board x \<notin> fst ` set seen"
        by (simp add: map_of_eq_None_iff)
      then have fresh: "\<forall>d' \<in> set xs. board d' = board x \<and> eligible d' \<longrightarrow> prio x < prio d'"
        using keys [of "board x"] by blast
      have step: "select_step x seen = Inr (seen @ [(board x, x)])"
        using Some None by (simp add: select_step_def)
      have "select_inv (xs @ [x]) (seen @ [(board x, x)])"
        unfolding select_inv_def
      proof (intro conjI allI impI)
        show "distinct (map fst (seen @ [(board x, x)]))"
          using dist notin by simp
      next
        fix k
        show "k \<in> fst ` set (seen @ [(board x, x)]) \<longleftrightarrow>
              (\<exists>d \<in> set (xs @ [x]). board d = k \<and> eligible d)"
          using keys [of k] el by auto
      next
        fix k d assume m: "map_of (seen @ [(board x, x)]) k = Some d"
        show "board d = k"
          using m vals by (auto simp: map_add_Some_iff split: if_splits)
      next
        fix k d assume m: "map_of (seen @ [(board x, x)]) k = Some d"
        then consider (old) "map_of seen k = Some d" | (new) "k = board x" "d = x"
          by (auto simp: map_add_Some_iff split: if_splits)
        then show "first_lowest (xs @ [x]) d"
        proof cases
          case old
          then have b: "board d = k" and f: "first_lowest xs d" using vals by blast+
          from old have "k \<in> fst ` set seen"
            by (rule map_of_Some_key)
          with notin have "board x \<noteq> k" by blast
          with b have "board x \<noteq> board d" by simp
          with f show ?thesis by (intro first_lowest_snoc_other) simp_all
        next
          case new
          with el fresh show ?thesis by (simp add: first_lowest_snoc_new)
        qed
      qed
      with step show ?thesis by blast
    next
      case (Some d0)
      then have b0: "board d0 = board x" and f0: "first_lowest xs d0"
        using vals by blast+
      from f0 have m0: "d0 \<in> set xs" and e0: "eligible d0"
        by (simp_all add: first_lowest_mem first_lowest_eligible)
      have "branch_priority (entry x) = branch_priority (entry d0)"
        using same m0 b0 by (intro same_allow_list_priority [of "xs @ [x]"]) simp_all
      with e0 obtain q where q: "branch_priority (entry x) (branch d0) = Some q" and pq: "prio d0 = q"
        by (auto simp: eligible_def prio_def)
      have inkeys: "board x \<in> fst ` set seen"
        using Some by (rule map_of_Some_key)
      show ?thesis
      proof (cases "p < q")
        case True
        have step: "select_step x seen = Inr (AList.update (board x) x seen)"
          using \<open>branch_priority (entry x) (branch x) = Some p\<close> Some q True
          by (simp add: select_step_def)
        have lower: "\<forall>d' \<in> set xs. board d' = board x \<and> eligible d' \<longrightarrow> prio x < prio d'"
        proof (intro ballI impI)
          fix d' assume "d' \<in> set xs" "board d' = board x \<and> eligible d'"
          then have "prio d0 \<le> prio d'"
            using f0 b0 by (intro first_lowest_le [of xs]) simp_all
          with True px pq show "prio x < prio d'" by simp
        qed
        have "select_inv (xs @ [x]) (AList.update (board x) x seen)"
          unfolding select_inv_def
        proof (intro conjI allI impI)
          show "distinct (map fst (AList.update (board x) x seen))"
            using dist by (rule distinct_update)
        next
          fix k
          show "k \<in> fst ` set (AList.update (board x) x seen) \<longleftrightarrow>
                (\<exists>d \<in> set (xs @ [x]). board d = k \<and> eligible d)"
            using keys [of k] el inkeys by (auto simp: dom_update)
        next
          fix k d assume "map_of (AList.update (board x) x seen) k = Some d"
          then show "board d = k"
            using vals by (auto simp: update_conv' split: if_splits)
        next
          fix k d assume m: "map_of (AList.update (board x) x seen) k = Some d"
          then consider (old) "k \<noteq> board x" "map_of seen k = Some d" | (new) "k = board x" "d = x"
            by (auto simp: update_conv' split: if_splits)
          then show "first_lowest (xs @ [x]) d"
          proof cases
            case old
            then have "board d = k" and f: "first_lowest xs d" using vals by blast+
            with old(1) have "board x \<noteq> board d" by auto
            with f show ?thesis by (intro first_lowest_snoc_other) simp_all
          next
            case new
            with el lower show ?thesis by (simp add: first_lowest_snoc_new)
          qed
        qed
        with step show ?thesis by blast
      next
        case False
        have step: "select_step x seen = Inr seen"
          using \<open>branch_priority (entry x) (branch x) = Some p\<close> Some q False
          by (simp add: select_step_def)
        have "select_inv (xs @ [x]) seen"
          unfolding select_inv_def
        proof (intro conjI allI impI)
          show "distinct (map fst seen)" by (rule dist)
        next
          fix k show "k \<in> fst ` set seen \<longleftrightarrow> (\<exists>d \<in> set (xs @ [x]). board d = k \<and> eligible d)"
            using keys [of k] el inkeys by auto
        next
          fix k d assume "map_of seen k = Some d"
          then show "board d = k" using vals by blast
        next
          fix k d assume m: "map_of seen k = Some d"
          then have b: "board d = k" and f: "first_lowest xs d" using vals by blast+
          show "first_lowest (xs @ [x]) d"
          proof (rule first_lowest_snoc_other [OF f], intro impI)
            assume "board x = board d \<and> eligible x"
            with b m Some have "d = d0" by simp
            with False px pq show "prio d \<le> prio x" by simp
          qed
        qed
        with step show ?thesis by blast
      qed
    qed
  qed
qed

lemma select_loop_inv:
  "select_inv xs seen \<Longrightarrow> same_allow_list (xs @ rest) \<Longrightarrow>
   \<exists>seen'. select_loop rest seen = Inr seen' \<and> select_inv (xs @ rest) seen'"
proof (induction rest arbitrary: xs seen)
  case Nil
  then show ?case by simp
next
  case (Cons x rest)
  have "same_allow_list (xs @ [x])"
    using Cons.prems(2) by (rule same_allow_list_subset) auto
  with Cons.prems(1) obtain seen1 where s1: "select_step x seen = Inr seen1"
    and i1: "select_inv (xs @ [x]) seen1"
    using select_step_inv by blast
  from Cons.prems(2) have "same_allow_list ((xs @ [x]) @ rest)" by simp
  with Cons.IH [OF i1] obtain seen' where "select_loop rest seen1 = Inr seen'"
    and "select_inv ((xs @ [x]) @ rest) seen'" by blast
  with s1 show ?case by simp
qed

lemma select_inv_values:
  assumes "select_inv xs seen"
  shows "map board (map snd seen) = map fst seen"
    and "\<forall>d \<in> set (map snd seen). first_lowest xs d"
proof -
  from assms have dist: "distinct (map fst seen)"
    and vals: "\<And>k d. map_of seen k = Some d \<Longrightarrow> board d = k \<and> first_lowest xs d"
    unfolding select_inv_def by blast+
  have *: "\<And>k d. (k, d) \<in> set seen \<Longrightarrow> board d = k \<and> first_lowest xs d"
    using vals map_of_is_SomeI [OF dist] by blast
  have "\<forall>p \<in> set seen. board (snd p) = fst p"
    using * by auto
  then show "map board (map snd seen) = map fst seen"
    by simp
  show "\<forall>d \<in> set (map snd seen). first_lowest xs d"
    using * by auto
qed

lemma select_one_branch_per_board_spec:
  assumes "same_allow_list boards"
  shows "\<exists>out. select_one_branch_per_board boards = Inr out \<and>
           distinct (map board out) \<and>
           set (map board out) = board ` {d \<in> set boards. eligible d} \<and>
           (\<forall>d \<in> set out. first_lowest boards d)"
proof -
  have "select_inv [] ([] :: (string \<times> 'a board_data_scheme) list)"
    by (simp add: select_inv_def)
  with assms obtain seen where l: "select_loop boards [] = Inr seen" and i: "select_inv boards seen"
    using select_loop_inv [of "[]" "[]" boards] by auto
  have out: "select_one_branch_per_board boards = Inr (map snd seen)"
    using l by (simp add: select_one_branch_per_board_def)
  from i have dist: "distinct (map fst seen)"
    and keys: "\<And>k. k \<in> fst ` set seen \<longleftrightarrow> (\<exists>d \<in> set boards. board d = k \<and> eligible d)"
    unfolding select_inv_def by blast+
  note v = select_inv_values [OF i]
  have "distinct (map board (map snd seen))" unfolding v(1) by (rule dist)
  moreover have "fst ` set seen = board ` {d \<in> set boards. eligible d}"
  proof (intro set_eqI iffI)
    fix k assume "k \<in> fst ` set seen"
    then obtain d where "d \<in> set boards" "board d = k" "eligible d"
      using keys by blast
    then show "k \<in> board ` {d \<in> set boards. eligible d}" by blast
  next
    fix k assume "k \<in> board ` {d \<in> set boards. eligible d}"
    then have "\<exists>d \<in> set boards. board d = k \<and> eligible d" by blast
    then show "k \<in> fst ` set seen" using keys by blast
  qed
  then have "set (map board (map snd seen)) = board ` {d \<in> set boards. eligible d}"
    unfolding v(1) by simp
  ultimately show ?thesis using out v(2) by blast
qed

lemma fold_priority_dom:
  "dom (fold (\<lambda>(idx, b) m. m(b \<mapsto> idx)) (zip ns bs) m0) = dom m0 \<union> set (take (length ns) bs)"
proof (induction bs arbitrary: ns m0)
  case Nil
  then show ?case by simp
next
  case (Cons b bs)
  then show ?case by (cases ns) auto
qed

lemma fold_priority_notin:
  "b \<notin> set bs \<Longrightarrow> fold (\<lambda>(idx, b) m. m(b \<mapsto> idx)) (zip ns bs) m0 b = m0 b"
proof (induction bs arbitrary: ns m0)
  case Nil
  then show ?case by simp
next
  case (Cons a bs)
  then show ?case by (cases ns) auto
qed

lemma fold_priority_last:
  "i < length bs \<Longrightarrow> length ns = length bs \<Longrightarrow>
   (\<forall>j. i < j \<and> j < length bs \<longrightarrow> bs ! j \<noteq> bs ! i) \<Longrightarrow>
   fold (\<lambda>(idx, b) m. m(b \<mapsto> idx)) (zip ns bs) m0 (bs ! i) = Some (ns ! i)"
proof (induction bs arbitrary: ns i m0)
  case Nil
  then show ?case by simp
next
  case (Cons b bs)
  then obtain n ns' where ns: "ns = n # ns'" by (cases ns) auto
  let ?f = "\<lambda>(idx, b) m. m(b \<mapsto> idx)"
  have step: "fold ?f (zip (n # ns') (b # bs)) m0 = fold ?f (zip ns' bs) (m0(b \<mapsto> n))"
    by (simp only: zip_Cons_Cons fold.simps comp_apply prod.case)
  show ?case
  proof (cases i)
    case 0
    have "b \<notin> set bs"
    proof
      assume "b \<in> set bs"
      then obtain j where "j < length bs" "bs ! j = b"
        by (auto simp: in_set_conv_nth)
      with Cons.prems(3) [rule_format, of "Suc j"] 0 show False by simp
    qed
    then have "fold ?f (zip ns' bs) (m0(b \<mapsto> n)) b = (m0(b \<mapsto> n)) b"
      by (rule fold_priority_notin)
    also have "\<dots> = Some n" by simp
    finally show ?thesis
      unfolding 0 ns step by (simp only: nth_Cons_0)
  next
    case (Suc k)
    have "\<forall>j. k < j \<and> j < length bs \<longrightarrow> bs ! j \<noteq> bs ! k"
    proof (intro allI impI)
      fix j assume "k < j \<and> j < length bs"
      with Cons.prems(3) [rule_format, of "Suc j"] Suc show "bs ! j \<noteq> bs ! k" by simp
    qed
    with Cons.prems Suc ns have "fold ?f (zip ns' bs) (m0(b \<mapsto> n)) (bs ! k) = Some (ns' ! k)"
      by (intro Cons.IH) simp_all
    then show ?thesis
      unfolding Suc ns step by (simp only: nth_Cons_Suc)
  qed
qed

lemma eligible_iff_branch_allowed: "eligible d = branch_allowed d"
proof (cases "get_or '''' (tlv_KERNEL_TEST_TARGET (entry d)) = ''''")
  case True
  then show ?thesis
    by (auto simp: eligible_def branch_allowed_def branch_priority_def default_branch_priority_def)
next
  case False
  let ?al = "allowed_branches (get_or '''' (tlv_KERNEL_TEST_TARGET (entry d)))"
  have "length [1 ..< Suc (length ?al)] = length ?al"
    by (simp del: upt_Suc)
  then have "dom (branch_priority (entry d)) = set ?al"
    using False fold_priority_dom [of "[1 ..< Suc (length ?al)]" ?al Map.empty]
    by (simp add: branch_priority_def Let_def del: upt_Suc)
  then show ?thesis
    using False by (auto simp: eligible_def branch_allowed_def Let_def)
qed

lemma prio_default:
  "get_or '''' (tlv_KERNEL_TEST_TARGET (entry d)) = '''' \<Longrightarrow>
   prio d = (if branch d = ''current'' then 1
             else if branch d = ''vendor'' \<or> branch d = ''legacy'' then 2
             else if branch d = ''edge'' then 3 else 0)"
  by (simp add: prio_def branch_priority_def default_branch_priority_def)

lemma prio_allow_list:
  assumes "get_or '''' (tlv_KERNEL_TEST_TARGET (entry d)) \<noteq> ''''"
    and "i < length (allowed_branches (get_or '''' (tlv_KERNEL_TEST_TARGET (entry d))))"
    and "branch d = allowed_branches (get_or '''' (tlv_KERNEL_TEST_TARGET (entry d))) ! i"
    and "\<forall>j. i < j \<and> j < length (allowed_branches (get_or '''' (tlv_KERNEL_TEST_TARGET (entry d)))) \<longrightarrow>
           allowed_branches (get_or '''' (tlv_KERNEL_TEST_TARGET (entry d))) ! j \<noteq>
           allowed_branches (get_or '''' (tlv_KERNEL_TEST_TARGET (entry d))) ! i"
  shows "prio d = Suc i"
proof -
  let ?al = "allowed_branches (get_or '''' (tlv_KERNEL_TEST_TARGET (entry d)))"
  have "length [1 ..< Suc (length ?al)] = length ?al"
    by (simp del: upt_Suc)
  from fold_priority_last [OF assms(2) this assms(4), of Map.empty]
  have "branch_priority (entry d) (?al ! i) = Some (Suc i)"
    using assms(1,2) by (simp add: branch_priority_def Let_def nth_upt del: upt_Suc)
  with assms(3) show ?thesis by (simp add: prio_def)
qed

text \<open>
  C4 (one branch per board), as the code has it. When the entries of each board carry the
  same \<^verbatim>\<open>KERNEL_TEST_TARGET\<close>, the selector returns a list with exactly one entry for
  each board that has an eligible entry, and none for the other boards; the entry kept is
  the first-seen eligible entry of its board with the lowest priority number. An entry is
  eligible exactly when the partitioner's branch filter accepts it; its priority number
  is 1 for \<^verbatim>\<open>current\<close>, 2 for \<^verbatim>\<open>vendor\<close> and \<^verbatim>\<open>legacy\<close>, 3 for \<^verbatim>\<open>edge\<close> without a
  \<^verbatim>\<open>KERNEL_TEST_TARGET\<close>; with one, it is the position of the branch in that list, counted
  from 1, and the last such position when the list names the branch more than once.
\<close>

theorem select_one_branch_lowest_priority:
  assumes "same_allow_list boards"
  shows "(\<exists>out. select_one_branch_per_board boards = Inr out \<and>
            distinct (map board out) \<and>
            set (map board out) = board ` {d \<in> set boards. eligible d} \<and>
            (\<forall>d \<in> set out. first_lowest boards d)) \<and>
         (\<forall>d \<in> set boards.
            eligible d = branch_allowed d \<and>
            (get_or '''' (tlv_KERNEL_TEST_TARGET (entry d)) = '''' \<longrightarrow>
               prio d = (if branch d = ''current'' then 1
                         else if branch d = ''vendor'' \<or> branch d = ''legacy'' then 2
                         else if branch d = ''edge'' then 3 else 0)) \<and>
            (\<forall>i. get_or '''' (tlv_KERNEL_TEST_TARGET (entry d)) \<noteq> '''' \<and>
                 i < length (allowed_branches (get_or '''' (tlv_KERNEL_TEST_TARGET (entry d)))) \<and>
                 branch d = allowed_branches (get_or '''' (tlv_KERNEL_TEST_TARGET (entry d))) ! i \<and>
                 (\<forall>j. i < j \<and>
                      j < length (allowed_branches (get_or '''' (tlv_KERNEL_TEST_TARGET (entry d)))) \<longrightarrow>
                      allowed_branches (get_or '''' (tlv_KERNEL_TEST_TARGET (entry d))) ! j \<noteq>
                      allowed_branches (get_or '''' (tlv_KERNEL_TEST_TARGET (entry d))) ! i) \<longrightarrow>
                 prio d = Suc i))"
proof (intro conjI ballI allI impI)
  show "\<exists>out. select_one_branch_per_board boards = Inr out \<and>
            distinct (map board out) \<and>
            set (map board out) = board ` {d \<in> set boards. eligible d} \<and>
            (\<forall>d \<in> set out. first_lowest boards d)"
    by (rule select_one_branch_per_board_spec [OF assms])
next
  fix d show "eligible d = branch_allowed d" by (rule eligible_iff_branch_allowed)
next
  fix d assume "get_or '''' (tlv_KERNEL_TEST_TARGET (entry d)) = ''''"
  then show "prio d = (if branch d = ''current'' then 1
                         else if branch d = ''vendor'' \<or> branch d = ''legacy'' then 2
                         else if branch d = ''edge'' then 3 else 0)"
    by (rule prio_default)
next
  fix d i
  assume a: "get_or '''' (tlv_KERNEL_TEST_TARGET (entry d)) \<noteq> '''' \<and>
                 i < length (allowed_branches (get_or '''' (tlv_KERNEL_TEST_TARGET (entry d)))) \<and>
                 branch d = allowed_branches (get_or '''' (tlv_KERNEL_TEST_TARGET (entry d))) ! i \<and>
                 (\<forall>j. i < j \<and>
                      j < length (allowed_branches (get_or '''' (tlv_KERNEL_TEST_TARGET (entry d)))) \<longrightarrow>
                      allowed_branches (get_or '''' (tlv_KERNEL_TEST_TARGET (entry d))) ! j \<noteq>
                      allowed_branches (get_or '''' (tlv_KERNEL_TEST_TARGET (entry d))) ! i)"
  show "prio d = Suc i"
    by (rule prio_allow_list) (use a in blast)+
qed

theorem select_one_branch_lowest_priority_witness:
  "select_one_branch_per_board
     [example_board ''rock5b'' ''vendor'' ''conf'' ''arm64'' True '''',
      example_board ''rock5b'' ''current'' ''conf'' ''arm64'' True '''',
      example_board ''bananapi'' ''legacy'' ''conf'' ''armhf'' True '''',
      example_board ''rock5b'' ''edge'' ''conf'' ''arm64'' True '''',
      example_board ''bananapi'' ''vendor'' ''conf'' ''armhf'' True ''''] =
   Inr [example_board ''rock5b'' ''current'' ''conf'' ''arm64'' True '''',
        example_board ''bananapi'' ''legacy'' ''conf'' ''armhf'' True ''''] \<and>
   first_lowest
     [example_board ''rock5b'' ''vendor'' ''conf'' ''arm64'' True '''',
      example_board ''rock5b'' ''current'' ''conf'' ''arm64'' True '''',
      example_board ''bananapi'' ''legacy'' ''conf'' ''armhf'' True '''',
      example_board ''rock5b'' ''edge'' ''conf'' ''arm64'' True '''',
      example_board ''bananapi'' ''vendor'' ''conf'' ''armhf'' True '''']
     (example_board ''bananapi'' ''legacy'' ''conf'' ''armhf'' True '''') \<and>
   select_one_branch_per_board
     [with_allow_list ''edge,current,edge'' (example_board ''rock5b'' ''edge'' ''conf'' ''arm64'' True ''''),
      with_allow_list ''edge,current,edge'' (example_board ''rock5b'' ''current'' ''conf'' ''arm64'' True '''')] =
   Inr [with_allow_list ''edge,current,edge'' (example_board ''rock5b'' ''current'' ''conf'' ''arm64'' True '''')] \<and>
   prio (with_allow_list ''edge,current,edge'' (example_board ''rock5b'' ''edge'' ''conf'' ''arm64'' True '''')) = 3 \<and>
   prio (with_allow_list ''edge,current,edge'' (example_board ''rock5b'' ''current'' ''conf'' ''arm64'' True '''')) = 2"
proof -
  let ?bs = "[example_board ''rock5b'' ''vendor'' ''conf'' ''arm64'' True '''',
      example_board ''rock5b'' ''current'' ''conf'' ''arm64'' True '''',
      example_board ''bananapi'' ''legacy'' ''conf'' ''armhf'' True '''',
      example_board ''rock5b'' ''edge'' ''conf'' ''arm64'' True '''',
      example_board ''bananapi'' ''vendor'' ''conf'' ''armhf'' True '''']"
  let ?e = "with_allow_list ''edge,current,edge'' (example_board ''rock5b'' ''edge'' ''conf'' ''arm64'' True '''')"
  let ?c = "with_allow_list ''edge,current,edge'' (example_board ''rock5b'' ''current'' ''conf'' ''arm64'' True '''')"
  have s: "same_allow_list ?bs"
    by (simp add: same_allow_list_def example_board_def example_entry_def)
  have e: "select_one_branch_per_board ?bs =
     Inr [example_board ''rock5b'' ''current'' ''conf'' ''arm64'' True '''',
          example_board ''bananapi'' ''legacy'' ''conf'' ''armhf'' True '''']"
    by code_simp
  from select_one_branch_lowest_priority [OF s] e
  have f: "first_lowest ?bs (example_board ''bananapi'' ''legacy'' ''conf'' ''armhf'' True '''')"
    by auto
  have s': "same_allow_list [?e, ?c]"
    by (simp add: same_allow_list_def with_allow_list_def)
  have k: "get_or '''' (tlv_KERNEL_TEST_TARGET (entry ?e)) = ''edge,current,edge''"
    "get_or '''' (tlv_KERNEL_TEST_TARGET (entry ?c)) = ''edge,current,edge''"
    "branch ?e = ''edge''" "branch ?c = ''current''"
    by (simp_all add: with_allow_list_def get_or_def example_board_def)
  have al: "allowed_branches ''edge,current,edge'' = [''edge'', ''current'', ''edge'']"
    by code_simp
  have e': "select_one_branch_per_board [?e, ?c] = Inr [?c]"
    by code_simp
  note t = select_one_branch_lowest_priority [OF s', THEN conjunct2, rule_format]
  have pe: "prio ?e = Suc 2"
    by (rule t [of ?e, THEN conjunct2, THEN conjunct2, rule_format, of 2])
      (auto simp add: k al less_Suc_eq)
  have pc: "prio ?c = Suc 1"
    by (rule t [of ?c, THEN conjunct2, THEN conjunct2, rule_format, of 1])
      (auto simp add: k al less_Suc_eq)
  from e f e' pe pc show ?thesis by simp
qed

text \<open>
  C4 as stated fails: a board whose only entry is on a branch outside the priority order
  gets no entry, and two entries of one board with different \<^verbatim>\<open>KERNEL_TEST_TARGET\<close> can
  end the selection with a \<^verbatim>\<open>KeyError\<close>; the partitioner accepts both entries of such an
  inventory, so the whole run ends with it.
\<close>

theorem select_one_branch_not_one_per_board:
  "select_one_branch_per_board
     [example_board ''rock5b'' ''nightly'' ''conf'' ''arm64'' True ''''] = Inr [] \<and>
   select_one_branch_per_board
     [example_board ''rock5b'' ''current'' ''conf'' ''arm64'' True '''',
      (example_board ''rock5b'' ''edge'' ''conf'' ''arm64'' True '''')
        \<lparr>entry := (example_entry ''rock5b'' ''edge'' ''conf'' ''arm64'' True)
                    \<lparr>tlv_KERNEL_TEST_TARGET := Some ''edge''\<rparr>\<rparr>] = Inl KeyError \<and>
   main \<lparr>image_info =
            [example_entry ''rock5b'' ''current'' ''conf'' ''arm64'' True,
             (example_entry ''rock5b'' ''edge'' ''conf'' ''arm64'' True)
               \<lparr>tlv_KERNEL_TEST_TARGET := Some ''edge''\<rparr>],
          extensions_table = [], remove_table = [],
          blacklist_apps = {}, manual_apps = '''',
          blacklist_stable = {}, manual_stable = '''',
          blacklist_nightly = {}, manual_nightly = '''',
          blacklist_community = {}, manual_community = ''''\<rparr> = Inl KeyError"
  by code_simp

end
